theory Spec2Isabelle
  imports Complex_Main "HOL-Library.Product_Lexorder" "HOL-Library.Multiset"
begin

section \<open>Values of the data frames\<close>

text \<open>
  The two scripts \<^verbatim>\<open>booking_analyzer01-01.py\<close> and \<^verbatim>\<open>booking_analyzer01-02.py\<close> are each one
  function over pandas data frames. A data frame is modelled as the list of its rows, a row
  as a record of its columns, and every statement of the scripts as a function from frame to
  frame named after the variable or column the statement assigns.

  Identifiers are natural numbers, timestamps are integers counting nanoseconds, stock is an
  integer, prices are rationals. A float64 column that can hold a non-finite value is a
  column of \<open>fval\<close>: the finite values are idealised as rationals (no rounding), and
  \<open>NaN\<close>, \<open>PInf\<close>, \<open>NInf\<close> are kept apart, because \<^verbatim>\<open>fillna\<close> replaces the first and leaves the
  other two.
\<close>

type_synonym listing = "nat \<times> nat \<times> nat"
type_synonym stay = "nat \<times> nat \<times> nat \<times> int"

datatype fval = NaN | NInf | Fin rat | PInf

datatype error = FileNotFoundError | ValueError

definition Timedelta_days :: "int \<Rightarrow> int" where
  "Timedelta_days d = d * 86400000000000"

text \<open>Float division of two finite numbers, as numpy does it: \<open>0/0\<close> is NaN, \<open>a/0\<close> is an infinity.\<close>

definition pd_div :: "rat \<Rightarrow> rat \<Rightarrow> fval" where
  "pd_div a b = (if b \<noteq> 0 then Fin (a / b) else if a = 0 then NaN else if 0 < a then PInf else NInf)"

fun fillna :: "rat \<Rightarrow> fval \<Rightarrow> fval" where
  "fillna v NaN = Fin v"
| "fillna v x = x"

text \<open>The order numpy sorts floats in: NaN after every number.\<close>

fun fval_le :: "fval \<Rightarrow> fval \<Rightarrow> bool" where
  "fval_le _ NaN = True"
| "fval_le NaN _ = False"
| "fval_le NInf _ = True"
| "fval_le _ NInf = False"
| "fval_le _ PInf = True"
| "fval_le PInf _ = False"
| "fval_le (Fin a) (Fin b) = (a \<le> b)"

instantiation fval :: linorder
begin

definition less_eq_fval :: "fval \<Rightarrow> fval \<Rightarrow> bool" where
  "less_eq_fval a b = fval_le a b"

definition less_fval :: "fval \<Rightarrow> fval \<Rightarrow> bool" where
  "less_fval a b = (fval_le a b \<and> \<not> fval_le b a)"

instance
proof
  fix x y z :: fval
  show "(x < y) = (x \<le> y \<and> \<not> y \<le> x)"
    by (simp add: less_fval_def less_eq_fval_def)
  show "x \<le> x"
    by (cases x) (simp_all add: less_eq_fval_def)
  show "x \<le> y \<Longrightarrow> y \<le> z \<Longrightarrow> x \<le> z"
    by (cases x; cases y; cases z) (simp_all add: less_eq_fval_def)
  show "x \<le> y \<Longrightarrow> y \<le> x \<Longrightarrow> x = y"
    by (cases x; cases y) (simp_all add: less_eq_fval_def)
  show "x \<le> y \<or> y \<le> x"
    by (cases x; cases y) (auto simp: less_eq_fval_def)
qed

end

text \<open>The comparison \<^verbatim>\<open>>=\<close> of a float column with a number: false on NaN.\<close>

definition fval_ge :: "fval \<Rightarrow> fval \<Rightarrow> bool" where
  "fval_ge a b = (a \<noteq> NaN \<and> b \<noteq> NaN \<and> b \<le> a)"

section \<open>Reading and cleaning the table (step 1 of both scripts)\<close>

text \<open>
  A cell of a date column of the file is empty, a text that is no date, or a timestamp. The
  other columns are read as present or empty; \<open>raw_other_na\<close> says that a further column of
  the file, one the scripts do not name, is empty in the row (\<^verbatim>\<open>dropna\<close> looks at every column).
\<close>

datatype date_cell = Missing | Unparseable | Stamp int

record raw_row =
  raw_hotel_id :: "nat option"
  raw_plan_id :: "nat option"
  raw_room_type_id :: "nat option"
  raw_date :: date_cell
  raw_created_at :: date_cell
  raw_stock :: "int option"
  raw_price :: "rat option"
  raw_other_na :: bool

datatype csv_file = NoSuchFile | Csv "raw_row list"

record stay_key =
  hotel_id :: nat
  plan_id :: nat
  room_type_id :: nat
  date :: int

record snapshot = stay_key +
  created_at :: int
  stock :: int
  price :: rat

text \<open>
  \<^verbatim>\<open>pd.read_csv(csv_path, parse_dates=[...])\<close>: a missing file raises FileNotFoundError, which the
  scripts catch (they print a message and return). A date column with a text that is no date
  is left as text by \<^verbatim>\<open>read_csv\<close>.
\<close>

fun read_csv :: "csv_file \<Rightarrow> error + raw_row list" where
  "read_csv NoSuchFile = Inl FileNotFoundError"
| "read_csv (Csv rows) = Inr rows"

text \<open>
  \<^verbatim>\<open>pd.to_datetime(column)\<close> with its default \<^verbatim>\<open>errors='raise'\<close>: a text that is no date raises
  ValueError; an empty cell becomes NaT. The scripts do not catch this error.
\<close>

definition to_datetime :: "date_cell list \<Rightarrow> error + date_cell list" where
  "to_datetime col = (if Unparseable \<in> set col then Inl ValueError else Inr col)"

text \<open>\<^verbatim>\<open>df.dropna(inplace=True)\<close>: a row is kept when no column of it is empty.\<close>

fun complete_row :: "raw_row \<Rightarrow> snapshot option" where
  "complete_row r =
     (case (raw_hotel_id r, raw_plan_id r, raw_room_type_id r, raw_date r, raw_created_at r,
            raw_stock r, raw_price r) of
        (Some h, Some p, Some t, Stamp d, Stamp c, Some s, Some pr) \<Rightarrow>
          if raw_other_na r then None
          else Some \<lparr>hotel_id = h, plan_id = p, room_type_id = t, date = d,
                     created_at = c, stock = s, price = pr\<rparr>
      | _ \<Rightarrow> None)"

definition dropna :: "raw_row list \<Rightarrow> snapshot list" where
  "dropna rows = List.map_filter complete_row rows"

definition load :: "csv_file \<Rightarrow> error + snapshot list" where
  "load file =
     (case read_csv file of
        Inl e \<Rightarrow> Inl e
      | Inr rows \<Rightarrow>
          (case to_datetime (map raw_created_at rows) of
             Inl e \<Rightarrow> Inl e
           | Inr _ \<Rightarrow>
               (case to_datetime (map raw_date rows) of
                  Inl e \<Rightarrow> Inl e
                | Inr _ \<Rightarrow> Inr (dropna rows))))"

section \<open>Capacity, filter and sale derivation (step 2 of both scripts)\<close>

definition listing_of :: "'a stay_key_scheme \<Rightarrow> listing" where
  "listing_of r = (hotel_id r, plan_id r, room_type_id r)"

definition stay_of :: "'a stay_key_scheme \<Rightarrow> stay" where
  "stay_of r = (hotel_id r, plan_id r, room_type_id r, date r)"

text \<open>
  \<^verbatim>\<open>groupby(keys)\<close> lists the groups by ascending key, each with its rows in frame order.
\<close>

definition group_keys :: "('r \<Rightarrow> 'k::linorder) \<Rightarrow> 'r list \<Rightarrow> 'k list" where
  "group_keys key df = sort (remdups (map key df))"

definition group_rows :: "('r \<Rightarrow> 'k) \<Rightarrow> 'k \<Rightarrow> 'r list \<Rightarrow> 'r list" where
  "group_rows key k df = filter (\<lambda>r. key r = k) df"

text \<open>\<^verbatim>\<open>max_stock_df = df.groupby([hotel_id, plan_id, room_type_id])['stock'].max()\<close>\<close>

definition max_stock_df :: "snapshot list \<Rightarrow> (listing \<times> int) list" where
  "max_stock_df df =
     List.map_filter
       (\<lambda>k. case map stock (group_rows listing_of k df) of
              [] \<Rightarrow> None
            | s # ss \<Rightarrow> Some (k, fold max ss s))
       (group_keys listing_of df)"

record capacity_row = snapshot +
  max_stock :: int

text \<open>\<^verbatim>\<open>pd.merge(df, max_stock_df, on=[...])\<close>: an inner join, in the order of the left frame.\<close>

definition merge_max_stock :: "snapshot list \<Rightarrow> capacity_row list" where
  "merge_max_stock df =
     List.map_filter
       (\<lambda>r. map_option (\<lambda>m. snapshot.extend r \<lparr>max_stock = m\<rparr>)
              (map_of (max_stock_df df) (listing_of r)))
       df"

definition capacity_filter :: "snapshot list \<Rightarrow> capacity_row list" where
  "capacity_filter df = filter (\<lambda>r. 30 \<le> max_stock r) (merge_max_stock df)"

text \<open>
  \<^verbatim>\<open>df.sort_values([hotel_id, plan_id, room_type_id, date, created_at])\<close>: a sort on several
  columns is a stable lexicographic sort in pandas.
\<close>

definition sort_values :: "capacity_row list \<Rightarrow> capacity_row list" where
  "sort_values df =
     sort_key (\<lambda>r. (hotel_id r, plan_id r, room_type_id r, date r, created_at r)) df"

text \<open>
  \<^verbatim>\<open>df.groupby([..., 'date'])['stock'].shift(1)\<close>: each row gets the stock of the row before it
  in its own group, the first row of a group gets NaN (\<open>None\<close>). \<open>seen\<close> maps a group to the
  stock of its latest row so far.
\<close>

fun shift :: "(stay \<rightharpoonup> int) \<Rightarrow> capacity_row list \<Rightarrow> int option list" where
  "shift seen [] = []"
| "shift seen (r # rs) = seen (stay_of r) # shift (seen(stay_of r \<mapsto> stock r)) rs"

record sale_event = capacity_row +
  stock_shift :: "int option"
  sold :: int
  revenue :: rat

text \<open>
  \<^verbatim>\<open>df['sold'] = (df['stock_shift'] - df['stock']).clip(lower=0).fillna(0)\<close> and
  \<^verbatim>\<open>df['revenue'] = df['sold'] * df['price']\<close>, row by row. The difference and the clip of NaN
  are NaN.
\<close>

definition sale_of :: "capacity_row \<Rightarrow> int option \<Rightarrow> sale_event" where
  "sale_of r sh =
     (let diff = map_option (\<lambda>p. p - stock r) sh;
          clipped = map_option (\<lambda>d. max d 0) diff;
          s = (case clipped of None \<Rightarrow> 0 | Some v \<Rightarrow> v)
      in capacity_row.extend r \<lparr>stock_shift = sh, sold = s, revenue = of_int s * price r\<rparr>)"

definition derive_sales :: "capacity_row list \<Rightarrow> sale_event list" where
  "derive_sales df = map2 sale_of df (shift Map.empty df)"

text \<open>The frame \<^verbatim>\<open>df\<close> as the later steps of both scripts read it.\<close>

definition sales :: "snapshot list \<Rightarrow> sale_event list" where
  "sales df = derive_sales (sort_values (capacity_filter df))"

section \<open>Daily KPIs (step 3 of both scripts)\<close>

record agg_row = stay_key +
  total_revenue :: rat
  total_sold :: int
  max_stock :: int

text \<open>
  \<^verbatim>\<open>df.groupby([hotel_id, plan_id, room_type_id, date]).agg(total_revenue=('revenue', 'sum'),
  total_sold=('sold', 'sum'), max_stock=('max_stock', 'first')).reset_index()\<close>: one row for each
  group that has a row, by ascending key.
\<close>

definition daily_kpi_agg :: "sale_event list \<Rightarrow> agg_row list" where
  "daily_kpi_agg df =
     List.map_filter
       (\<lambda>(h, p, t, d). case group_rows stay_of (h, p, t, d) df of
              [] \<Rightarrow> None
            | r # g \<Rightarrow> Some \<lparr>hotel_id = h, plan_id = p, room_type_id = t, date = d,
                              total_revenue = sum_list (map revenue (r # g)),
                              total_sold = sum_list (map sold (r # g)),
                              max_stock = capacity_row.max_stock r\<rparr>)
       (group_keys stay_of df)"

text \<open>\<^verbatim>\<open>daily_kpi = daily_kpi[daily_kpi['total_sold'] > 0]\<close>\<close>

definition daily_kpi_sold :: "sale_event list \<Rightarrow> agg_row list" where
  "daily_kpi_sold df = filter (\<lambda>a. 0 < total_sold a) (daily_kpi_agg df)"

text \<open>\<^verbatim>\<open>(numerator / denominator).fillna(0)\<close> on two finite columns.\<close>

definition ratio :: "rat \<Rightarrow> rat \<Rightarrow> fval" where
  "ratio a b = fillna 0 (pd_div a b)"

text \<open>\<^verbatim>\<open>frame.groupby(keys)['sold'].sum().reset_index(name=...)\<close>\<close>

definition groupby_sum :: "('r \<Rightarrow> 'k::linorder) \<Rightarrow> ('r \<Rightarrow> int) \<Rightarrow> 'r list \<Rightarrow> ('k \<times> int) list" where
  "groupby_sum key val df =
     map (\<lambda>k. (k, sum_list (map val (group_rows key k df)))) (group_keys key df)"

text \<open>
  \<^verbatim>\<open>df['cutoff_date_120'] = df['date'] - pd.Timedelta(days=120)\<close>,
  \<^verbatim>\<open>sold_before_120_df = df[df['created_at'] < df['cutoff_date_120']]\<close> and the sum by group;
  likewise for the last 30 days with \<^verbatim>\<open>>=\<close>.
\<close>

definition sold_before_120_agg :: "sale_event list \<Rightarrow> (stay \<times> int) list" where
  "sold_before_120_agg df =
     groupby_sum stay_of sold (filter (\<lambda>r. created_at r < date r - Timedelta_days 120) df)"

definition sold_last_30_agg :: "sale_event list \<Rightarrow> (stay \<times> int) list" where
  "sold_last_30_agg df =
     groupby_sum stay_of sold (filter (\<lambda>r. date r - Timedelta_days 30 \<le> created_at r) df)"

text \<open>
  \<^verbatim>\<open>pd.merge(daily_kpi, agg, on=[...], how='left')\<close> followed by \<^verbatim>\<open>fillna(0, inplace=True)\<close> on the
  joined column: the value of the row of \<open>agg\<close> with the key, and 0 where there is none. (From
  pandas 3 on the in-place fill of a selected column no longer reaches the frame and the
  joined column keeps its NaN; the ratio computed from it is filled with 0 again, so the
  ratio columns are the same.)
\<close>

definition merge_left_fillna :: "('k \<times> int) list \<Rightarrow> 'k \<Rightarrow> int" where
  "merge_left_fillna agg k = (case map_of agg k of None \<Rightarrow> 0 | Some v \<Rightarrow> v)"

record kpi_row = agg_row +
  RevPAR :: fval
  sold_last_30 :: int
  last_30_days_booking_ratio :: fval

record kpi01_row = kpi_row +
  sold_before_120 :: int
  booking_rate_at_120_days :: fval

text \<open>The frame \<^verbatim>\<open>daily_kpi\<close> of \<^verbatim>\<open>booking_analyzer01-01.py\<close> after its step 3d.\<close>

definition daily_kpi01 :: "sale_event list \<Rightarrow> kpi01_row list" where
  "daily_kpi01 df =
     map (\<lambda>a.
            let early = merge_left_fillna (sold_before_120_agg df) (stay_of a);
                late = merge_left_fillna (sold_last_30_agg df) (stay_of a)
            in agg_row.extend a
                 \<lparr>RevPAR = ratio (total_revenue a) (of_int (agg_row.max_stock a)),
                  sold_last_30 = late,
                  last_30_days_booking_ratio = ratio (of_int late) (of_int (total_sold a)),
                  sold_before_120 = early,
                  booking_rate_at_120_days = ratio (of_int early) (of_int (agg_row.max_stock a))\<rparr>)
         (daily_kpi_sold df)"

section \<open>Price tiers (steps 3b to 3d of the peer-group script)\<close>

text \<open>
  Float arithmetic on \<open>fval\<close>, as far as the median and the quantiles need it: the sum, the
  negation and the product with a finite factor.
\<close>

fun fneg :: "fval \<Rightarrow> fval" where
  "fneg NaN = NaN"
| "fneg NInf = PInf"
| "fneg (Fin a) = Fin (- a)"
| "fneg PInf = NInf"

fun fadd :: "fval \<Rightarrow> fval \<Rightarrow> fval" where
  "fadd (Fin a) (Fin b) = Fin (a + b)"
| "fadd NaN _ = NaN"
| "fadd _ NaN = NaN"
| "fadd PInf NInf = NaN"
| "fadd NInf PInf = NaN"
| "fadd PInf _ = PInf"
| "fadd _ PInf = PInf"
| "fadd NInf _ = NInf"
| "fadd _ NInf = NInf"

fun fscale :: "rat \<Rightarrow> fval \<Rightarrow> fval" where
  "fscale c (Fin a) = Fin (c * a)"
| "fscale c NaN = NaN"
| "fscale c PInf = (if c = 0 then NaN else if 0 < c then PInf else NInf)"
| "fscale c NInf = (if c = 0 then NaN else if 0 < c then NInf else PInf)"

text \<open>
  \<^verbatim>\<open>groupby(...)['ADR'].median()\<close>: NaN is skipped; the middle value of the sorted values, or the
  mean of the two middle values.
\<close>

definition pd_median :: "fval list \<Rightarrow> fval" where
  "pd_median xs =
     (let vs = sort (filter (\<lambda>v. v \<noteq> NaN) xs); n = length vs
      in if n = 0 then NaN
         else if odd n then vs ! (n div 2)
         else fscale (1 / 2) (fadd (vs ! (n div 2 - 1)) (vs ! (n div 2))))"

text \<open>
  \<^verbatim>\<open>pd.qcut(x, q, labels=labels, duplicates='drop')\<close>. The edges are the quantiles of the values
  at \<^verbatim>\<open>np.linspace(0, 1, q + 1)\<close>, by linear interpolation between the two neighbours in the
  sorted values (an empty column gives NaN). Repeated edges are dropped (\<open>unique\<close> keeps the
  first of each), unless there are exactly two edges. Then the labels are checked: they must
  be distinct and one fewer than the edges, otherwise ValueError. A value gets the label of the
  interval \<open>(edge, next edge]\<close> it lies in, the lowest edge included; NaN where there is none.
\<close>

definition linspace :: "nat \<Rightarrow> rat list" where
  "linspace q = (if q = 0 then [0] else map (\<lambda>k. of_nat k / of_nat q) [0..<Suc q])"

definition lerp :: "fval \<Rightarrow> fval \<Rightarrow> rat \<Rightarrow> fval" where
  "lerp a b t = fadd a (fscale t (fadd b (fneg a)))"

definition quantile :: "fval list \<Rightarrow> rat \<Rightarrow> fval" where
  "quantile vals p =
     (if vals = [] then NaN
      else let h = p * of_nat (length vals - 1);
               lo = nat \<lfloor>h\<rfloor>;
               hi = min (lo + 1) (length vals - 1)
           in lerp (vals ! lo) (vals ! hi) (h - of_nat lo))"

definition unique :: "'a list \<Rightarrow> 'a list" where
  "unique xs = rev (remdups (rev xs))"

definition bin_label :: "fval list \<Rightarrow> 'l list \<Rightarrow> fval \<Rightarrow> 'l option" where
  "bin_label bins labels v =
     (let lowest = (case bins of [] \<Rightarrow> False | b # _ \<Rightarrow> v \<noteq> NaN \<and> v = b);
          ids = (if lowest then 1 else length (filter (\<lambda>b. b < v) bins))
      in if v = NaN \<or> ids = length bins \<or> ids = 0 then None
         else Some (labels ! (ids - 1)))"

definition quantile_edges :: "fval list \<Rightarrow> nat \<Rightarrow> fval list" where
  "quantile_edges x q = map (quantile (sort (filter (\<lambda>v. v \<noteq> NaN) x))) (linspace q)"

definition qcut :: "fval list \<Rightarrow> nat \<Rightarrow> 'l list \<Rightarrow> error + 'l option list" where
  "qcut x q labels =
     (let edges = quantile_edges x q;
          bins = (if length (unique edges) < length edges \<and> length edges \<noteq> 2
                  then unique edges else edges)
      in if \<not> distinct labels \<or> length labels \<noteq> length bins - 1 then Inl ValueError
         else Inr (map (bin_label bins labels) x))"

text \<open>
  The labels of the script, lowest tier first: \<open>Ume_low\<close>, \<open>Take_mid\<close> and \<open>Matsu_high\<close> stand
  for its three label strings (plum: low prices; bamboo: middle; pine: high), \<open>Single_group\<close>
  for the string of the fall-back.
\<close>

datatype tier = Ume_low | Take_mid | Matsu_high | Single_group

text \<open>
  The \<^verbatim>\<open>try\<close> block of step 3d. The result is: whether the warning was printed; the categories
  of the column \<^verbatim>\<open>price_tier\<close> when it is categorical (\<open>None\<close> for the plain column of the
  fall-back); the column.
\<close>

definition price_tier_column :: "nat \<Rightarrow> fval list \<Rightarrow> bool \<times> tier list option \<times> tier option list" where
  "price_tier_column num_tiers cps =
     (let tier_labels = take num_tiers (rev [Matsu_high, Take_mid, Ume_low])
      in case qcut cps num_tiers tier_labels of
           Inr tiers \<Rightarrow> (False, Some tier_labels, tiers)
         | Inl _ \<Rightarrow> (True, None, map (\<lambda>_. Some Single_group) cps))"

record kpi02_row = kpi_row +
  ADR :: fval
  characteristic_price :: fval
  price_tier :: "tier option"

definition ADR_of :: "agg_row \<Rightarrow> fval" where
  "ADR_of a = ratio (total_revenue a) (of_int (total_sold a))"

text \<open>\<^verbatim>\<open>daily_kpi.groupby([hotel_id, plan_id, room_type_id])['ADR'].median()\<close>\<close>

definition plan_characteristic_price :: "agg_row list \<Rightarrow> (listing \<times> fval) list" where
  "plan_characteristic_price kpi =
     map (\<lambda>k. (k, pd_median (map ADR_of (group_rows listing_of k kpi))))
       (group_keys listing_of kpi)"

text \<open>\<^verbatim>\<open>pd.merge(daily_kpi, plan_characteristic_price, on=[...])\<close>: an inner join.\<close>

definition merge_characteristic_price :: "agg_row list \<Rightarrow> (agg_row \<times> fval) list" where
  "merge_characteristic_price kpi =
     List.map_filter
       (\<lambda>a. map_option (\<lambda>c. (a, c)) (map_of (plan_characteristic_price kpi) (listing_of a)))
       kpi"

text \<open>
  The frame \<^verbatim>\<open>daily_kpi\<close> of \<^verbatim>\<open>booking_analyzer01-02.py\<close> after its step 4a, with the warning
  flag and the categories of \<^verbatim>\<open>price_tier\<close>.
\<close>

definition daily_kpi02 :: "nat \<Rightarrow> sale_event list \<Rightarrow> bool \<times> tier list option \<times> kpi02_row list" where
  "daily_kpi02 num_tiers df =
     (let merged = merge_characteristic_price (daily_kpi_sold df);
          (warned, cats, tiers) = price_tier_column num_tiers (map snd merged)
      in (warned, cats,
          map2 (\<lambda>(a, c) t.
                  let late = merge_left_fillna (sold_last_30_agg df) (stay_of a)
                  in agg_row.extend a
                       \<lparr>RevPAR = ratio (total_revenue a) (of_int (agg_row.max_stock a)),
                        sold_last_30 = late,
                        last_30_days_booking_ratio = ratio (of_int late) (of_int (total_sold a)),
                        ADR = ADR_of a,
                        characteristic_price = c,
                        price_tier = t\<rparr>)
            merged tiers))"

section \<open>Selection of the exemplars (step 3e and step 4)\<close>

text \<open>\<^verbatim>\<open>daily_kpi[daily_kpi['last_30_days_booking_ratio'] >= last_minute_threshold]\<close>\<close>

definition last_minute_cases :: "rat \<Rightarrow> 'a kpi_row_scheme list \<Rightarrow> 'a kpi_row_scheme list" where
  "last_minute_cases last_minute_threshold kpi =
     filter (\<lambda>r. fval_ge (last_30_days_booking_ratio r) (Fin last_minute_threshold)) kpi"

text \<open>
  \<^verbatim>\<open>sort_values('RevPAR', ascending=False)\<close> sorts on one column with the default
  \<^verbatim>\<open>kind='quicksort'\<close>. pandas promises a descending order with NaN last, and promises the
  order of equal keys only for \<^verbatim>\<open>kind='stable'\<close> and \<^verbatim>\<open>'mergesort'\<close>. The sort is therefore an
  argument \<open>srt\<close> of the model; \<open>sorts_descending\<close> is what pandas promises of it.
  \<open>sort_values_stable\<close> is the sort with \<^verbatim>\<open>kind='stable'\<close>, \<open>sort_values_reversing\<close> another
  sort that keeps the promise.
\<close>

definition desc_before :: "fval \<Rightarrow> fval \<Rightarrow> bool" where
  "desc_before a b = (b = NaN \<or> (a \<noteq> NaN \<and> b \<le> a))"

definition sorts_descending :: "('r \<Rightarrow> fval) \<Rightarrow> ('r list \<Rightarrow> 'r list) \<Rightarrow> bool" where
  "sorts_descending key srt =
     (\<forall>df. mset (srt df) = mset df \<and> sorted_wrt (\<lambda>a b. desc_before (key a) (key b)) (srt df))"

definition sort_values_stable :: "('r \<Rightarrow> fval) \<Rightarrow> 'r list \<Rightarrow> 'r list" where
  "sort_values_stable key df =
     rev (sort_key key (rev (filter (\<lambda>r. key r \<noteq> NaN) df))) @ filter (\<lambda>r. key r = NaN) df"


text \<open>
  \<^verbatim>\<open>groupby(keys).first()\<close>: for each group, by ascending key, the first value of every column
  that is not NaN. No column of \<^verbatim>\<open>daily_kpi\<close> holds NaN, so that is the first row of the group.
\<close>

definition groupby_first :: "('r \<Rightarrow> 'k::linorder) \<Rightarrow> 'r list \<Rightarrow> 'r list" where
  "groupby_first key df = List.map_filter (\<lambda>k. find (\<lambda>r. key r = k) df) (group_keys key df)"

definition best_dates01 ::
  "(kpi01_row list \<Rightarrow> kpi01_row list) \<Rightarrow> rat \<Rightarrow> kpi01_row list \<Rightarrow> kpi01_row list" where
  "best_dates01 srt last_minute_threshold kpi =
     groupby_first listing_of (srt (last_minute_cases last_minute_threshold kpi))"

text \<open>
  \<^verbatim>\<open>groupby(['price_tier']).first().reset_index()\<close>. On a categorical key pandas lists every
  category when \<^verbatim>\<open>observed=False\<close>, with NaN in all columns (\<open>None\<close>) for a category that has no
  row, and only the categories that have a row when \<^verbatim>\<open>observed=True\<close>. The script leaves
  \<^verbatim>\<open>observed\<close> to its default, which is False up to pandas 2 and True from pandas 3, so the
  default is an argument of the model. On the plain column of the fall-back the groups are
  the values that occur (there is one value, so their order is not in question). Rows whose
  key is NaN belong to no group.
\<close>

definition groupby_tier_first ::
  "bool \<Rightarrow> tier list option \<Rightarrow> kpi02_row list \<Rightarrow> (tier \<times> kpi02_row option) list" where
  "groupby_tier_first observed cats df =
     (let keys = (case cats of
                    None \<Rightarrow> remdups (List.map_filter price_tier df)
                  | Some cs \<Rightarrow> if observed then filter (\<lambda>c. Some c \<in> set (map price_tier df)) cs
                               else cs)
      in map (\<lambda>c. (c, find (\<lambda>r. price_tier r = Some c) df)) keys)"

definition best_dates02 ::
  "(kpi02_row list \<Rightarrow> kpi02_row list) \<Rightarrow> bool \<Rightarrow> rat \<Rightarrow> tier list option \<Rightarrow> kpi02_row list
     \<Rightarrow> (tier \<times> kpi02_row option) list" where
  "best_dates02 srt observed last_minute_threshold cats kpi =
     groupby_tier_first observed cats (srt (last_minute_cases last_minute_threshold kpi))"

section \<open>The two scripts\<close>

text \<open>
  \<^verbatim>\<open>analyze_and_plot_optimal_booking_curves(csv_path, last_minute_threshold)\<close>: the exemplars it
  draws, one chart each. Drawing is outside the model.
\<close>

definition analyze_and_plot_optimal_booking_curves ::
  "(kpi01_row list \<Rightarrow> kpi01_row list) \<Rightarrow> csv_file \<Rightarrow> rat \<Rightarrow> error + kpi01_row list" where
  "analyze_and_plot_optimal_booking_curves srt csv_path last_minute_threshold =
     (case load csv_path of
        Inl e \<Rightarrow> Inl e
      | Inr df \<Rightarrow> Inr (best_dates01 srt last_minute_threshold (daily_kpi01 (sales df))))"

text \<open>
  \<^verbatim>\<open>analyze_and_plot_peer_group_champions(csv_path, last_minute_threshold, num_tiers)\<close>: the
  warning flag and the exemplars. Of the drawing loop the model keeps the one expression that
  can fail on a row of \<^verbatim>\<open>best_dates\<close>, \<^verbatim>\<open>int(g['max_stock'])\<close> in the label of the capacity line:
  it raises ValueError on NaN.
\<close>

definition capacity_label :: "kpi02_row option \<Rightarrow> error + int" where
  "capacity_label g = (case g of None \<Rightarrow> Inl ValueError | Some r \<Rightarrow> Inr (agg_row.max_stock r))"

definition analyze_and_plot_peer_group_champions ::
  "(kpi02_row list \<Rightarrow> kpi02_row list) \<Rightarrow> bool \<Rightarrow> csv_file \<Rightarrow> rat \<Rightarrow> nat
     \<Rightarrow> error + bool \<times> (tier \<times> kpi02_row option) list" where
  "analyze_and_plot_peer_group_champions srt observed csv_path last_minute_threshold num_tiers =
     (case load csv_path of
        Inl e \<Rightarrow> Inl e
      | Inr df \<Rightarrow>
          (let (warned, cats, kpi) = daily_kpi02 num_tiers (sales df);
               best_dates = best_dates02 srt observed last_minute_threshold cats kpi
           in if list_all (\<lambda>g. capacity_label (snd g) \<noteq> Inl ValueError) best_dates
              then Inr (warned, best_dates)
              else Inl ValueError))"

section \<open>Auxiliary definitions for the proofs\<close>

text \<open>
  The values \<^verbatim>\<open>shift(1)\<close> gives a group whose stocks are \<open>ss\<close>, when the row before the group's
  first row is \<open>p\<close>.
\<close>

fun shift_seq :: "int option \<Rightarrow> int list \<Rightarrow> int option list" where
  "shift_seq p [] = []"
| "shift_seq p (s # ss) = p # shift_seq (Some s) ss"

text \<open>Rows for the examples: plan and room type are 1.\<close>

definition snap :: "nat \<Rightarrow> int \<Rightarrow> int \<Rightarrow> int \<Rightarrow> rat \<Rightarrow> snapshot" where
  "snap h d c s p =
     \<lparr>hotel_id = h, plan_id = 1, room_type_id = 1, date = d, created_at = c, stock = s, price = p\<rparr>"

text \<open>
  One stay of listing 1 with five snapshots, given out of order, and a listing 2 whose
  largest stock is 29.
\<close>

definition example_df :: "snapshot list" where
  "example_df = [snap 1 100 4 10 5, snap 1 100 0 30 5, snap 2 100 3 29 5, snap 1 100 1 30 5,
                 snap 1 100 3 20 5, snap 1 100 2 20 5]"

text \<open>Listing 1 has a largest stock of exactly 30, listing 2 of 29.\<close>

definition boundary_df :: "snapshot list" where
  "boundary_df = [snap 1 100 0 30 5, snap 2 100 0 29 5, snap 1 100 1 20 5, snap 2 100 1 9 5, snap 2 101 1 9 5]"

text \<open>
  Listing 1 with three stays. Stay 200 (in days): 10 units sold more than 120 days ahead, 5 in
  between, 5 in the last 30 days. Stay 300: all 20 units sold in the last 30 days. Stay 400:
  10 units sold, all more than 120 days ahead.
\<close>

definition pace_df :: "snapshot list" where
  "pace_df =
     [snap 1 (Timedelta_days 200) (Timedelta_days 10) 40 100,
      snap 1 (Timedelta_days 200) (Timedelta_days 20) 30 100,
      snap 1 (Timedelta_days 200) (Timedelta_days 100) 25 100,
      snap 1 (Timedelta_days 200) (Timedelta_days 180) 20 100,
      snap 1 (Timedelta_days 300) (Timedelta_days 280) 40 120,
      snap 1 (Timedelta_days 300) (Timedelta_days 290) 20 120,
      snap 1 (Timedelta_days 400) (Timedelta_days 200) 40 90,
      snap 1 (Timedelta_days 400) (Timedelta_days 210) 30 90]"

text \<open>One stay whose stock never moves: nothing is sold.\<close>

definition idle_df :: "snapshot list" where
  "idle_df = [snap 1 100 0 30 5, snap 1 100 1 30 5]"

text \<open>Rows of a file for the examples: every column but the two dates is present.\<close>

definition raw :: "nat \<Rightarrow> date_cell \<Rightarrow> date_cell \<Rightarrow> int \<Rightarrow> rat \<Rightarrow> raw_row" where
  "raw h d c s p =
     \<lparr>raw_hotel_id = Some h, raw_plan_id = Some 1, raw_room_type_id = Some 1, raw_date = d,
      raw_created_at = c, raw_stock = Some s, raw_price = Some p, raw_other_na = False\<rparr>"

text \<open>
  A file without faults; the same file with two more rows, one without a stay date and one
  without a snapshot time; and the file with one more row whose stay date is no date.
\<close>

definition clean_raw :: "raw_row list" where
  "clean_raw = [raw 1 (Stamp 100) (Stamp 0) 40 5, raw 1 (Stamp 100) (Stamp 1) 20 5]"

definition missing_raw :: "raw_row list" where
  "missing_raw = [raw 1 (Stamp 100) (Stamp 0) 40 5, raw 1 Missing (Stamp 1) 90 5,
                  raw 1 (Stamp 100) (Stamp 1) 20 5, raw 1 (Stamp 100) Missing 10 5]"

definition unparseable_raw :: "raw_row list" where
  "unparseable_raw = [raw 1 (Stamp 100) (Stamp 0) 40 5, raw 1 Unparseable (Stamp 1) 90 5,
                      raw 1 (Stamp 100) (Stamp 1) 20 5]"

text \<open>
  Two listings with one stay each, sold at 5 and at 8; the same with a second stay of the
  second listing; and five listings with one stay each, sold at 1, 1, 2, 3 and 4.
\<close>

definition two_listing_raw :: "raw_row list" where
  "two_listing_raw = [raw 1 (Stamp 100) (Stamp 0) 40 5, raw 1 (Stamp 100) (Stamp 1) 30 5,
                      raw 3 (Stamp 100) (Stamp 0) 40 8, raw 3 (Stamp 100) (Stamp 1) 30 8]"

definition three_row_raw :: "raw_row list" where
  "three_row_raw = two_listing_raw @
                   [raw 3 (Stamp 101) (Stamp 0) 40 8, raw 3 (Stamp 101) (Stamp 1) 30 8]"

definition five_listing_df :: "snapshot list" where
  "five_listing_df = [snap 1 100 0 40 1, snap 1 100 1 30 1, snap 2 100 0 40 1, snap 2 100 1 30 1,
                      snap 3 100 0 40 2, snap 3 100 1 30 2, snap 4 100 0 40 3, snap 4 100 1 30 3,
                      snap 5 100 0 40 4, snap 5 100 1 30 4]"


text \<open>
  Three listings with one stay each, sold at 5, 6 and 8. The stay of the middle listing is
  sold 90 days ahead and earlier, the other two in the last 30 days.
\<close>

definition empty_tier_raw :: "raw_row list" where
  "empty_tier_raw =
     [raw 1 (Stamp (Timedelta_days 100)) (Stamp (Timedelta_days 80)) 40 5,
      raw 1 (Stamp (Timedelta_days 100)) (Stamp (Timedelta_days 90)) 30 5,
      raw 2 (Stamp (Timedelta_days 100)) (Stamp (Timedelta_days 0)) 40 6,
      raw 2 (Stamp (Timedelta_days 100)) (Stamp (Timedelta_days 10)) 30 6,
      raw 3 (Stamp (Timedelta_days 100)) (Stamp (Timedelta_days 80)) 40 8,
      raw 3 (Stamp (Timedelta_days 100)) (Stamp (Timedelta_days 90)) 30 8]"

section \<open>Lemmas on capacity, grouping and sale derivation\<close>

lemma set_map_filter: "set (List.map_filter f xs) = {y. \<exists>x \<in> set xs. f x = Some y}"
  by (induction xs) (auto split: option.splits)

lemma set_group_keys [simp]: "set (group_keys key df) = key ` set df"
  by (simp add: group_keys_def)

lemma distinct_group_keys [simp]: "distinct (group_keys key df)"
  by (simp add: group_keys_def)

lemma sorted_group_keys [simp]: "sorted (group_keys key df)"
  by (simp add: group_keys_def)

lemma group_rows_Nil: "group_rows key k df = [] \<longleftrightarrow> k \<notin> key ` set df"
  by (auto simp: group_rows_def filter_empty_conv)

lemma fold_max_Max: "fold max ss (s::int) = Max (set (s # ss))"
  by (metis Max.set_eq_fold)

lemma map_of_map_filter_keyed:
  "map_of (List.map_filter (\<lambda>k. map_option (Pair k) (g k)) ks) k = (if k \<in> set ks then g k else None)"
  by (induction ks) (auto split: option.splits)

lemma max_stock_df_alt:
  "max_stock_df df = List.map_filter (\<lambda>k. map_option (Pair k)
      (case map stock (group_rows listing_of k df) of [] \<Rightarrow> None | s # ss \<Rightarrow> Some (fold max ss s)))
      (group_keys listing_of df)"
  unfolding max_stock_df_def
  by (rule arg_cong[where f = "\<lambda>f. List.map_filter f _"]) (auto split: list.splits)

lemma map_of_max_stock_df:
  "map_of (max_stock_df df) k =
     (if k \<in> listing_of ` set df then Some (Max (stock ` {s \<in> set df. listing_of s = k})) else None)"
proof (cases "k \<in> listing_of ` set df")
  case False
  then show ?thesis by (simp add: max_stock_df_alt map_of_map_filter_keyed)
next
  case True
  then have ne: "group_rows listing_of k df \<noteq> []" by (simp add: group_rows_Nil)
  then obtain s ss where g: "map stock (group_rows listing_of k df) = s # ss"
    by (cases "group_rows listing_of k df") auto
  have "set (s # ss) = stock ` {s \<in> set df. listing_of s = k}"
    unfolding g[symmetric] by (auto simp: group_rows_def)
  then have "fold max ss s = Max (stock ` {s \<in> set df. listing_of s = k})"
    by (metis fold_max_Max)
  with True g show ?thesis by (simp add: max_stock_df_alt map_of_map_filter_keyed)
qed

lemma merge_max_stock_eq:
  "merge_max_stock df =
     map (\<lambda>r. snapshot.extend r \<lparr>capacity_row.max_stock = Max (stock ` {s \<in> set df. listing_of s = listing_of r})\<rparr>) df"
proof -
  have "List.map_filter (\<lambda>r. map_option (\<lambda>m. snapshot.extend r \<lparr>capacity_row.max_stock = m\<rparr>)
              (map_of (max_stock_df df) (listing_of r))) xs
        = map (\<lambda>r. snapshot.extend r \<lparr>capacity_row.max_stock = Max (stock ` {s \<in> set df. listing_of s = listing_of r})\<rparr>) xs"
    if "set xs \<subseteq> set df" for xs
    using that by (induction xs) (auto simp: map_of_max_stock_df)
  then show ?thesis by (simp add: merge_max_stock_def)
qed


lemma length_shift [simp]: "length (shift seen df) = length df"
  by (induction df arbitrary: seen) auto

lemma length_shift_seq [simp]: "length (shift_seq p ss) = length ss"
  by (induction ss arbitrary: p) auto

lemma shift_seq_nth:
  "i < length ss \<Longrightarrow> shift_seq p ss ! i = (if i = 0 then p else Some (ss ! (i - 1)))"
proof (induction ss arbitrary: p i)
  case Nil
  then show ?case by simp
next
  case (Cons s ss)
  then show ?case by (cases i) (auto simp: nth_Cons')
qed

lemma shift_group:
  "filter (\<lambda>(r, sh). stay_of r = k) (zip df (shift seen df)) =
     zip (filter (\<lambda>r. stay_of r = k) df)
         (shift_seq (seen k) (map stock (filter (\<lambda>r. stay_of r = k) df)))"
  by (induction df arbitrary: seen) auto

lemma stay_of_sale_of [simp]: "stay_of (sale_of r sh) = stay_of r"
  by (simp add: sale_of_def stay_of_def capacity_row.extend_def Let_def)

lemma truncate_sale_of [simp]: "capacity_row.truncate (sale_of r sh) = r"
  by (simp add: sale_of_def capacity_row.extend_def capacity_row.truncate_def Let_def)

lemma sale_of_fields [simp]:
  "stock (sale_of r sh) = stock r" "price (sale_of r sh) = price r"
  "created_at (sale_of r sh) = created_at r" "date (sale_of r sh) = date r"
  "capacity_row.max_stock (sale_of r sh) = capacity_row.max_stock r"
  "stock_shift (sale_of r sh) = sh"
  "sold (sale_of r sh) = (case sh of None \<Rightarrow> 0 | Some p \<Rightarrow> max (p - stock r) 0)"
  "revenue (sale_of r sh) = of_int (sold (sale_of r sh)) * price r"
  by (simp_all add: sale_of_def capacity_row.extend_def Let_def split: option.splits)

lemma group_derive_sales:
  "group_rows stay_of k (derive_sales df) =
     map2 sale_of (group_rows stay_of k df) (shift_seq None (map stock (group_rows stay_of k df)))"
proof -
  have "filter (\<lambda>e. stay_of e = k) (map (\<lambda>(r, sh). sale_of r sh) (zip df (shift Map.empty df)))
      = map (\<lambda>(r, sh). sale_of r sh) (filter (\<lambda>(r, sh). stay_of r = k) (zip df (shift Map.empty df)))"
    by (simp add: filter_map o_def case_prod_unfold)
  then show ?thesis
    by (simp add: group_rows_def derive_sales_def shift_group)
qed

lemma map_truncate_derive_sales [simp]: "map capacity_row.truncate (derive_sales df) = df"
  by (simp add: derive_sales_def list_eq_iff_nth_eq)

lemma sorted_group_created_at:
  "sorted (map created_at (group_rows stay_of k (sort_values df)))"
proof -
  let ?key = "\<lambda>r::capacity_row. (hotel_id r, plan_id r, room_type_id r, date r, created_at r)"
  have "sorted (map ?key (filter (\<lambda>r. stay_of r = k) (sort_key ?key df)))"
    by (rule sorted_filter) (rule sorted_sort_key)
  then have "sorted_wrt (\<lambda>a b. ?key a \<le> ?key b) (filter (\<lambda>r. stay_of r = k) (sort_key ?key df))"
    by (simp add: sorted_map)
  then have "sorted_wrt (\<lambda>a b. created_at a \<le> created_at b) (filter (\<lambda>r. stay_of r = k) (sort_key ?key df))"
    by (rule sorted_wrt_mono_rel[rotated]) (auto simp: stay_of_def less_eq_prod_def)
  then show ?thesis
    by (simp add: sorted_map group_rows_def sort_values_def)
qed



lemma insort_key_cong_le:
  "(\<And>y. y \<in> set ys \<Longrightarrow> (f x \<le> f y) = (g x \<le> g y)) \<Longrightarrow> insort_key f x ys = insort_key g x ys"
  by (induction ys) auto

lemma sort_key_cong_le:
  "(\<And>x y. x \<in> set xs \<Longrightarrow> y \<in> set xs \<Longrightarrow> (f x \<le> f y) = (g x \<le> g y)) \<Longrightarrow> sort_key f xs = sort_key g xs"
proof (induction xs)
  case Nil
  then show ?case by simp
next
  case (Cons x xs)
  have "sort_key f xs = sort_key g xs" using Cons by simp
  moreover have "insort_key f x (sort_key g xs) = insort_key g x (sort_key g xs)"
    by (rule insort_key_cong_le) (simp add: Cons.prems)
  ultimately show ?case by simp
qed

lemma map_insort_key:
  "map h (insort_key (\<lambda>a. f (h a)) x xs) = insort_key f (h x) (map h xs)"
  by (induction xs) auto

lemma map_sort_key_comp:
  "map h (sort_key (\<lambda>a. f (h a)) xs) = sort_key f (map h xs)"
  by (induction xs) (auto simp: map_insort_key)

lemma group_sort_values:
  "group_rows stay_of k (sort_values df) = sort_key created_at (group_rows stay_of k df)"
proof -
  let ?key = "\<lambda>r::capacity_row. (hotel_id r, plan_id r, room_type_id r, date r, created_at r)"
  have "filter (\<lambda>r. stay_of r = k) (sort_key ?key df) = sort_key ?key (filter (\<lambda>r. stay_of r = k) df)"
    by (rule filter_sort)
  also have "\<dots> = sort_key created_at (filter (\<lambda>r. stay_of r = k) df)"
    by (rule sort_key_cong_le) (auto simp: stay_of_def less_eq_prod_def)
  finally show ?thesis by (simp add: group_rows_def sort_values_def)
qed

lemma stay_of_truncate [simp]:
  "stay_of (snapshot.truncate r) = stay_of r" "listing_of (snapshot.truncate r) = listing_of r"
  "stay_of (capacity_row.truncate e) = stay_of e" "listing_of (capacity_row.truncate e) = listing_of e"
  by (simp_all add: stay_of_def listing_of_def snapshot.truncate_def capacity_row.truncate_def)

lemma truncate_fields [simp]:
  "created_at (snapshot.truncate r) = created_at r" "stock (snapshot.truncate r) = stock r"
  "price (snapshot.truncate r) = price r" "date (snapshot.truncate r) = date r"
  "created_at (capacity_row.truncate e) = created_at e" "stock (capacity_row.truncate e) = stock e"
  "price (capacity_row.truncate e) = price e" "date (capacity_row.truncate e) = date e"
  "capacity_row.max_stock (capacity_row.truncate e) = capacity_row.max_stock e"
  by (simp_all add: snapshot.truncate_def capacity_row.truncate_def)

lemma snapshot_truncate_extend [simp]: "snapshot.truncate (snapshot.extend r m) = r"
  by (simp add: snapshot.truncate_def snapshot.extend_def)

lemma extend_fields [simp]:
  "stay_of (snapshot.extend r m) = stay_of r" "listing_of (snapshot.extend r m) = listing_of r"
  "capacity_row.max_stock (snapshot.extend r \<lparr>capacity_row.max_stock = c\<rparr>) = c"
  by (simp_all add: stay_of_def listing_of_def snapshot.extend_def)

lemma map_truncate_capacity_filter:
  "map snapshot.truncate (capacity_filter df) =
     filter (\<lambda>s. 30 \<le> Max (stock ` {s' \<in> set df. listing_of s' = listing_of s})) df"
  by (simp add: capacity_filter_def merge_max_stock_eq filter_map o_def)

lemma group_rows_map:
  "(\<And>x. key' (h x) = key x) \<Longrightarrow> group_rows key' k (map h xs) = map h (group_rows key k xs)"
  by (simp add: group_rows_def filter_map o_def)

lemma group_rows_sales:
  "map snapshot.truncate (group_rows stay_of k (sales df)) =
     sort_key created_at
       (filter (\<lambda>s. stay_of s = k \<and> 30 \<le> Max (stock ` {s' \<in> set df. listing_of s' = listing_of s})) df)"
proof -
  have "map capacity_row.truncate (group_rows stay_of k (sales df))
      = group_rows stay_of k (map capacity_row.truncate (sales df))"
    by (rule group_rows_map[symmetric]) simp
  also have "\<dots> = sort_key created_at (group_rows stay_of k (capacity_filter df))"
    by (simp add: sales_def group_sort_values)
  finally have 1: "map capacity_row.truncate (group_rows stay_of k (sales df))
      = sort_key created_at (group_rows stay_of k (capacity_filter df))" .
  have t: "snapshot.truncate e = snapshot.truncate (capacity_row.truncate e)" for e :: sale_event
    by (simp add: snapshot.truncate_def capacity_row.truncate_def)
  have "map snapshot.truncate (group_rows stay_of k (sales df))
      = map snapshot.truncate (map capacity_row.truncate (group_rows stay_of k (sales df)))"
    by (simp add: o_def t[symmetric])
  also have "\<dots> = map snapshot.truncate (sort_key (\<lambda>a. created_at (snapshot.truncate a)) (group_rows stay_of k (capacity_filter df)))"
    by (simp add: 1)
  also have "\<dots> = sort_key created_at (map snapshot.truncate (group_rows stay_of k (capacity_filter df)))"
    by (rule map_sort_key_comp)
  also have "map snapshot.truncate (group_rows stay_of k (capacity_filter df))
      = group_rows stay_of k (map snapshot.truncate (capacity_filter df))"
    by (rule group_rows_map[symmetric]) simp
  finally show ?thesis
    by (simp add: map_truncate_capacity_filter group_rows_def conj_commute)
qed


lemma daily_kpi_agg_rows:
  assumes "a \<in> set (daily_kpi_agg df)"
  shows "stay_of a \<in> stay_of ` set df"
    and "total_revenue a = sum_list (map revenue (group_rows stay_of (stay_of a) df))"
    and "total_sold a = sum_list (map sold (group_rows stay_of (stay_of a) df))"
    and "\<exists>r g. group_rows stay_of (stay_of a) df = r # g \<and> agg_row.max_stock a = capacity_row.max_stock r"
proof -
  from assms obtain k where
    fk: "(case k of (h, p, t, d) \<Rightarrow> (case group_rows stay_of (h, p, t, d) df of
              [] \<Rightarrow> None
            | r # g \<Rightarrow> Some \<lparr>hotel_id = h, plan_id = p, room_type_id = t, date = d,
                              total_revenue = sum_list (map revenue (r # g)),
                              total_sold = sum_list (map sold (r # g)),
                              max_stock = capacity_row.max_stock r\<rparr>)) = Some a"
    unfolding daily_kpi_agg_def set_map_filter by blast
  obtain h p t d where kk: "k = (h, p, t, d)" by (cases k) auto
  from fk obtain r g where
    g: "group_rows stay_of (h, p, t, d) df = r # g" and
    a: "a = \<lparr>hotel_id = h, plan_id = p, room_type_id = t, date = d,
              total_revenue = sum_list (map revenue (r # g)),
              total_sold = sum_list (map sold (r # g)),
              max_stock = capacity_row.max_stock r\<rparr>"
    by (auto simp: kk split: list.splits)
  have k: "stay_of a = (h, p, t, d)" by (simp add: a stay_of_def)
  from g have "(h, p, t, d) \<in> stay_of ` set df"
    using group_rows_Nil[of stay_of "(h, p, t, d)" df] by auto
  then show "stay_of a \<in> stay_of ` set df" by (simp add: k)
  show "total_revenue a = sum_list (map revenue (group_rows stay_of (stay_of a) df))"
    unfolding k g by (simp add: a)
  show "total_sold a = sum_list (map sold (group_rows stay_of (stay_of a) df))"
    unfolding k g by (simp add: a)
  show "\<exists>r g. group_rows stay_of (stay_of a) df = r # g \<and> agg_row.max_stock a = capacity_row.max_stock r"
    unfolding k g by (simp add: a)
qed

lemma daily_kpi_agg_ex:
  assumes "k \<in> stay_of ` set df"
  shows "\<exists>a \<in> set (daily_kpi_agg df). stay_of a = k"
proof -
  obtain h p t d where k: "k = (h, p, t, d)" by (cases k) auto
  from assms obtain r g where g: "group_rows stay_of (h, p, t, d) df = r # g"
    using group_rows_Nil[of stay_of k df] by (cases "group_rows stay_of k df") (auto simp: k)
  let ?a = "\<lparr>hotel_id = h, plan_id = p, room_type_id = t, date = d,
              total_revenue = sum_list (map revenue (r # g)),
              total_sold = sum_list (map sold (r # g)),
              max_stock = capacity_row.max_stock r\<rparr>"
  have "(h, p, t, d) \<in> set (group_keys stay_of df)"
    using assms by (simp add: k)
  then have "?a \<in> set (daily_kpi_agg df)"
    unfolding daily_kpi_agg_def set_map_filter
    by (intro CollectI bexI[of _ "(h, p, t, d)"]) (simp_all add: g)
  moreover have "stay_of ?a = k" by (simp add: k stay_of_def)
  ultimately show ?thesis by blast
qed

lemma map_sold_group:
  "map sold (group_rows stay_of k (sales df)) =
     map2 (\<lambda>s sh. case sh of None \<Rightarrow> 0 | Some p \<Rightarrow> max (p - s) 0)
       (map stock (group_rows stay_of k (sales df)))
       (shift_seq None (map stock (group_rows stay_of k (sales df))))"
proof -
  let ?gs = "group_rows stay_of k (sort_values (capacity_filter df))"
  have g: "group_rows stay_of k (sales df) = map2 sale_of ?gs (shift_seq None (map stock ?gs))"
    by (simp add: sales_def group_derive_sales)
  have st: "map stock (group_rows stay_of k (sales df)) = map stock ?gs"
    unfolding g by (rule nth_equalityI) simp_all
  show ?thesis
    unfolding st unfolding g by (rule nth_equalityI) simp_all
qed

lemma sold_nth:
  assumes "i < length (group_rows stay_of k (sales df))"
  shows "sold (group_rows stay_of k (sales df) ! i) =
           (if i = 0 then 0
            else max (stock (group_rows stay_of k (sales df) ! (i - 1)) - stock (group_rows stay_of k (sales df) ! i)) 0)"
proof -
  let ?g = "group_rows stay_of k (sales df)"
  have "sold (?g ! i) = map sold ?g ! i" using assms by simp
  also have "\<dots> = (case shift_seq None (map stock ?g) ! i of None \<Rightarrow> 0 | Some p \<Rightarrow> max (p - stock (?g ! i)) 0)"
    using assms by (subst map_sold_group) simp
  also have "\<dots> = (if i = 0 then 0 else max (stock (?g ! (i - 1)) - stock (?g ! i)) 0)"
    using assms by (simp add: shift_seq_nth)
  finally show ?thesis .
qed

lemma revenue_sales:
  "e \<in> set (sales df) \<Longrightarrow> revenue e = of_int (sold e) * price e"
  by (auto simp: sales_def derive_sales_def set_zip)

lemma snapshot_truncate_capacity [simp]:
  "snapshot.truncate (capacity_row.truncate e) = snapshot.truncate e"
  by (simp add: snapshot.truncate_def capacity_row.truncate_def)

lemma set_sales_truncate:
  "capacity_row.truncate ` set (sales df) = set (capacity_filter df)"
proof -
  have "set (map capacity_row.truncate (sales df)) = set (sort_values (capacity_filter df))"
    by (simp add: sales_def)
  then show ?thesis by (simp add: sort_values_def)
qed

lemma capacity_filter_max_stock:
  assumes "r \<in> set (capacity_filter df)"
  shows "capacity_row.max_stock r = Max (stock ` {s \<in> set df. listing_of s = listing_of r})"
    and "30 \<le> capacity_row.max_stock r"
  using assms by (auto simp: capacity_filter_def merge_max_stock_eq)

lemma sales_max_stock:
  assumes "e \<in> set (sales df)"
  shows "capacity_row.max_stock e = Max (stock ` {s \<in> set df. listing_of s = listing_of e})"
    and "30 \<le> capacity_row.max_stock e"
proof -
  from assms have "capacity_row.truncate e \<in> set (capacity_filter df)"
    using set_sales_truncate[of df] by blast
  from capacity_filter_max_stock[OF this]
  show "capacity_row.max_stock e = Max (stock ` {s \<in> set df. listing_of s = listing_of e})"
    and "30 \<le> capacity_row.max_stock e"
    by simp_all
qed

lemma listing_of_stay_of: "stay_of a = stay_of b \<Longrightarrow> listing_of a = listing_of b"
  by (simp add: stay_of_def listing_of_def)

lemma daily_kpi_agg_max_stock:
  assumes "a \<in> set (daily_kpi_agg (sales df))"
  shows "agg_row.max_stock a = Max (stock ` {s \<in> set df. listing_of s = listing_of a})"
    and "30 \<le> agg_row.max_stock a"
proof -
  from daily_kpi_agg_rows(4)[OF assms] obtain r g where
    g: "group_rows stay_of (stay_of a) (sales df) = r # g" and m: "agg_row.max_stock a = capacity_row.max_stock r"
    by blast
  from g have "r \<in> set (group_rows stay_of (stay_of a) (sales df))" by simp
  then have r: "r \<in> set (sales df)" "stay_of r = stay_of a" by (auto simp: group_rows_def)
  have l: "listing_of r = listing_of a" by (rule listing_of_stay_of[OF r(2)])
  from sales_max_stock[OF r(1)] m l
  show "agg_row.max_stock a = Max (stock ` {s \<in> set df. listing_of s = listing_of a})"
    and "30 \<le> agg_row.max_stock a"
    by simp_all
qed

lemma mset_sales:
  "mset (map snapshot.truncate (sales df)) =
     mset (filter (\<lambda>s. 30 \<le> Max (stock ` {s' \<in> set df. listing_of s' = listing_of s})) df)"
proof -
  have "map snapshot.truncate (sales df) = map snapshot.truncate (map capacity_row.truncate (sales df))"
    by (simp add: o_def)
  also have "\<dots> = map snapshot.truncate (sort_values (capacity_filter df))"
    by (simp add: sales_def)
  finally have "mset (map snapshot.truncate (sales df)) = mset (map snapshot.truncate (capacity_filter df))"
    by (simp add: sort_values_def)
  then show ?thesis by (simp add: map_truncate_capacity_filter)
qed

lemma dropna_filter:
  "(\<And>r. r \<in> set rows \<Longrightarrow> \<not> P r \<Longrightarrow> complete_row r = None) \<Longrightarrow> dropna (filter P rows) = dropna rows"
  unfolding dropna_def by (induction rows) (auto split: option.splits)

lemma load_parseable:
  assumes "Unparseable \<notin> raw_date ` set rows" "Unparseable \<notin> raw_created_at ` set rows"
  shows "load (Csv rows) = Inr (dropna rows)"
  using assms by (simp add: load_def to_datetime_def)

lemma load_unparseable:
  assumes "Unparseable \<in> raw_date ` set rows \<or> Unparseable \<in> raw_created_at ` set rows"
  shows "load (Csv rows) = Inl ValueError"
  using assms by (auto simp: load_def to_datetime_def)

lemma complete_row_missing:
  "raw_date r = Missing \<or> raw_created_at r = Missing \<Longrightarrow> complete_row r = None"
  by (auto split: option.splits date_cell.splits)

lemma complete_row_Some:
  "complete_row r = Some s \<Longrightarrow>
     raw_date r = Stamp (date s) \<and> raw_created_at r = Stamp (created_at s) \<and>
     raw_hotel_id r = Some (hotel_id s) \<and> raw_plan_id r = Some (plan_id s) \<and>
     raw_room_type_id r = Some (room_type_id s) \<and> raw_stock r = Some (stock s) \<and>
     raw_price r = Some (price s) \<and> \<not> raw_other_na r"
  by (auto split: option.splits date_cell.splits if_splits)

section \<open>Lemmas on the daily KPIs\<close>

lemma map_of_groupby_sum:
  "map_of (groupby_sum key val df) k =
     (if k \<in> key ` set df then Some (sum_list (map val (group_rows key k df))) else None)"
proof -
  have "map_of (map (\<lambda>k. (k, sum_list (map val (group_rows key k df)))) ks) k =
          (if k \<in> set ks then Some (sum_list (map val (group_rows key k df))) else None)" for ks
    by (induction ks) auto
  then show ?thesis by (simp add: groupby_sum_def)
qed

lemma merge_left_fillna_groupby_sum:
  "merge_left_fillna (groupby_sum key val df) k = sum_list (map val (group_rows key k df))"
proof (cases "k \<in> key ` set df")
  case True
  then show ?thesis by (simp add: merge_left_fillna_def map_of_groupby_sum)
next
  case False
  then have "group_rows key k df = []" by (simp add: group_rows_Nil)
  with False show ?thesis by (simp add: merge_left_fillna_def map_of_groupby_sum)
qed

lemma group_rows_filter:
  "group_rows key k (filter P df) = filter P (group_rows key k df)"
  by (auto simp: group_rows_def intro: filter_cong)

lemma sold_last_30_value:
  "merge_left_fillna (sold_last_30_agg df) k =
     sum_list (map sold (filter (\<lambda>e. date e - Timedelta_days 30 \<le> created_at e) (group_rows stay_of k df)))"
  by (simp add: sold_last_30_agg_def merge_left_fillna_groupby_sum group_rows_filter)

lemma sold_before_120_value:
  "merge_left_fillna (sold_before_120_agg df) k =
     sum_list (map sold (filter (\<lambda>e. created_at e < date e - Timedelta_days 120) (group_rows stay_of k df)))"
  by (simp add: sold_before_120_agg_def merge_left_fillna_groupby_sum group_rows_filter)

lemma ratio_Fin: "b \<noteq> 0 \<Longrightarrow> ratio a b = Fin (a / b)"
  by (simp add: ratio_def pd_div_def)

lemma ratio_zero_zero: "ratio 0 0 = Fin 0"
  by (simp add: ratio_def pd_div_def)

lemma ratio_not_NaN: "ratio a b \<noteq> NaN"
  by (simp add: ratio_def pd_div_def)

lemma agg_truncate_extend [simp]: "agg_row.truncate (agg_row.extend a m) = a"
  by (simp add: agg_row.truncate_def agg_row.extend_def)

lemma agg_extend_fields [simp]:
  "stay_of (agg_row.extend a m) = stay_of a" "listing_of (agg_row.extend a m) = listing_of a"
  "total_revenue (agg_row.extend a m) = total_revenue a" "total_sold (agg_row.extend a m) = total_sold a"
  "agg_row.max_stock (agg_row.extend a m) = agg_row.max_stock a" "date (agg_row.extend a m) = date a"
  by (simp_all add: stay_of_def listing_of_def agg_row.extend_def)

lemma map_truncate_daily_kpi01: "map agg_row.truncate (daily_kpi01 df) = daily_kpi_sold df"
  by (simp add: daily_kpi01_def o_def Let_def)

lemma daily_kpi01_row:
  assumes "r \<in> set (daily_kpi01 df)"
  shows "agg_row.truncate r \<in> set (daily_kpi_sold df)"
    and "RevPAR r = ratio (total_revenue r) (of_int (agg_row.max_stock r))"
    and "sold_last_30 r = merge_left_fillna (sold_last_30_agg df) (stay_of r)"
    and "last_30_days_booking_ratio r = ratio (of_int (sold_last_30 r)) (of_int (total_sold r))"
    and "sold_before_120 r = merge_left_fillna (sold_before_120_agg df) (stay_of r)"
    and "booking_rate_at_120_days r = ratio (of_int (sold_before_120 r)) (of_int (agg_row.max_stock r))"
proof -
  from assms obtain a where a: "a \<in> set (daily_kpi_sold df)" and
    r: "r = agg_row.extend a
                 \<lparr>RevPAR = ratio (total_revenue a) (of_int (agg_row.max_stock a)),
                  sold_last_30 = merge_left_fillna (sold_last_30_agg df) (stay_of a),
                  last_30_days_booking_ratio =
                    ratio (of_int (merge_left_fillna (sold_last_30_agg df) (stay_of a))) (of_int (total_sold a)),
                  sold_before_120 = merge_left_fillna (sold_before_120_agg df) (stay_of a),
                  booking_rate_at_120_days =
                    ratio (of_int (merge_left_fillna (sold_before_120_agg df) (stay_of a))) (of_int (agg_row.max_stock a))\<rparr>"
    by (auto simp: daily_kpi01_def Let_def)
  show "agg_row.truncate r \<in> set (daily_kpi_sold df)" using a by (simp add: r)
  show "RevPAR r = ratio (total_revenue r) (of_int (agg_row.max_stock r))"
    and "sold_last_30 r = merge_left_fillna (sold_last_30_agg df) (stay_of r)"
    and "last_30_days_booking_ratio r = ratio (of_int (sold_last_30 r)) (of_int (total_sold r))"
    and "sold_before_120 r = merge_left_fillna (sold_before_120_agg df) (stay_of r)"
    and "booking_rate_at_120_days r = ratio (of_int (sold_before_120 r)) (of_int (agg_row.max_stock r))"
    by (simp_all add: r agg_row.extend_def stay_of_def)
qed

lemma merge_characteristic_price_eq:
  "merge_characteristic_price kpi =
     map (\<lambda>a. (a, pd_median (map ADR_of (group_rows listing_of (listing_of a) kpi)))) kpi"
proof -
  have m: "map_of (plan_characteristic_price kpi) k =
     (if k \<in> listing_of ` set kpi then Some (pd_median (map ADR_of (group_rows listing_of k kpi))) else None)" for k
  proof -
    have "map_of (map (\<lambda>k. (k, pd_median (map ADR_of (group_rows listing_of k kpi)))) ks) k =
          (if k \<in> set ks then Some (pd_median (map ADR_of (group_rows listing_of k kpi))) else None)" for ks
      by (induction ks) auto
    then show ?thesis by (simp add: plan_characteristic_price_def)
  qed
  have "List.map_filter (\<lambda>a. map_option (\<lambda>c. (a, c)) (map_of (plan_characteristic_price kpi) (listing_of a))) xs
        = map (\<lambda>a. (a, pd_median (map ADR_of (group_rows listing_of (listing_of a) kpi)))) xs"
    if "set xs \<subseteq> set kpi" for xs
    using that by (induction xs) (auto simp: m)
  then show ?thesis by (simp add: merge_characteristic_price_def)
qed

lemma length_qcut: "qcut x q labels = Inr ts \<Longrightarrow> length ts = length x"
  by (auto simp: qcut_def Let_def split: if_splits)

lemma length_price_tier_column:
  "price_tier_column n cps = (w, cats, tiers) \<Longrightarrow> length tiers = length cps"
  by (auto simp: price_tier_column_def Let_def length_qcut split: sum.splits)

lemma map_truncate_daily_kpi02:
  "map agg_row.truncate (snd (snd (daily_kpi02 n df))) = daily_kpi_sold df"
proof -
  obtain w cats tiers where p: "price_tier_column n (map snd (merge_characteristic_price (daily_kpi_sold df))) = (w, cats, tiers)"
    by (metis prod_cases3)
  have len: "length tiers = length (daily_kpi_sold df)"
    using length_price_tier_column[OF p] by (simp add: merge_characteristic_price_eq)
  show ?thesis
    unfolding daily_kpi02_def Let_def p
    by (rule nth_equalityI) (simp_all add: len merge_characteristic_price_eq Let_def)
qed

lemma daily_kpi02_row:
  assumes "r \<in> set (snd (snd (daily_kpi02 n df)))"
  shows "agg_row.truncate r \<in> set (daily_kpi_sold df)"
    and "RevPAR r = ratio (total_revenue r) (of_int (agg_row.max_stock r))"
    and "sold_last_30 r = merge_left_fillna (sold_last_30_agg df) (stay_of r)"
    and "last_30_days_booking_ratio r = ratio (of_int (sold_last_30 r)) (of_int (total_sold r))"
    and "ADR r = ratio (total_revenue r) (of_int (total_sold r))"
proof -
  obtain w cats tiers where p: "price_tier_column n (map snd (merge_characteristic_price (daily_kpi_sold df))) = (w, cats, tiers)"
    by (metis prod_cases3)
  from assms have "r \<in> set (map2 (\<lambda>(a, c) t.
                  let late = merge_left_fillna (sold_last_30_agg df) (stay_of a)
                  in agg_row.extend a
                       \<lparr>RevPAR = ratio (total_revenue a) (of_int (agg_row.max_stock a)),
                        sold_last_30 = late,
                        last_30_days_booking_ratio = ratio (of_int late) (of_int (total_sold a)),
                        ADR = ADR_of a,
                        characteristic_price = c,
                        price_tier = t\<rparr>)
            (merge_characteristic_price (daily_kpi_sold df)) tiers)"
    unfolding daily_kpi02_def Let_def p by simp
  then obtain ac t where
    z: "(ac, t) \<in> set (zip (merge_characteristic_price (daily_kpi_sold df)) tiers)" and
    r0: "r = (case ac of (a, c) \<Rightarrow> agg_row.extend a
                       \<lparr>RevPAR = ratio (total_revenue a) (of_int (agg_row.max_stock a)),
                        sold_last_30 = merge_left_fillna (sold_last_30_agg df) (stay_of a),
                        last_30_days_booking_ratio = ratio (of_int (merge_left_fillna (sold_last_30_agg df) (stay_of a))) (of_int (total_sold a)),
                        ADR = ADR_of a,
                        characteristic_price = c,
                        price_tier = t\<rparr>)"
    by (auto simp: Let_def)
  obtain a c where ac: "ac = (a, c)" by (cases ac) auto
  from z have a: "(a, c) \<in> set (merge_characteristic_price (daily_kpi_sold df))"
    by (auto simp: ac dest: set_zip_leftD)
  have r: "r = agg_row.extend a
                       \<lparr>RevPAR = ratio (total_revenue a) (of_int (agg_row.max_stock a)),
                        sold_last_30 = merge_left_fillna (sold_last_30_agg df) (stay_of a),
                        last_30_days_booking_ratio = ratio (of_int (merge_left_fillna (sold_last_30_agg df) (stay_of a))) (of_int (total_sold a)),
                        ADR = ADR_of a,
                        characteristic_price = c,
                        price_tier = t\<rparr>"
    using r0 by (simp add: ac)
  from a have "a \<in> set (daily_kpi_sold df)" by (auto simp: merge_characteristic_price_eq)
  then show "agg_row.truncate r \<in> set (daily_kpi_sold df)" by (simp add: r)
  show "RevPAR r = ratio (total_revenue r) (of_int (agg_row.max_stock r))"
    and "sold_last_30 r = merge_left_fillna (sold_last_30_agg df) (stay_of r)"
    and "last_30_days_booking_ratio r = ratio (of_int (sold_last_30 r)) (of_int (total_sold r))"
    and "ADR r = ratio (total_revenue r) (of_int (total_sold r))"
    by (simp_all add: r agg_row.extend_def stay_of_def ADR_of_def)
qed


lemma agg_truncate_fields [simp]:
  "stay_of (agg_row.truncate r) = stay_of r" "listing_of (agg_row.truncate r) = listing_of r"
  "total_revenue (agg_row.truncate r) = total_revenue r" "total_sold (agg_row.truncate r) = total_sold r"
  "agg_row.max_stock (agg_row.truncate r) = agg_row.max_stock r" "date (agg_row.truncate r) = date r"
  by (simp_all add: stay_of_def listing_of_def agg_row.truncate_def)

lemma sold_nonneg: "e \<in> set (sales df) \<Longrightarrow> 0 \<le> sold e"
  by (auto simp: sales_def derive_sales_def set_zip split: option.splits)

lemma sum_list_filter_le:
  fixes f :: "'a \<Rightarrow> int"
  assumes "\<And>x. x \<in> set xs \<Longrightarrow> 0 \<le> f x"
  shows "0 \<le> sum_list (map f (filter P xs))" and "sum_list (map f (filter P xs)) \<le> sum_list (map f xs)"
  using assms by (induction xs) (auto simp: add_increasing)

lemma sum_list_filter_all:
  fixes f :: "'a \<Rightarrow> int"
  assumes "\<And>x. x \<in> set xs \<Longrightarrow> f x \<noteq> 0 \<Longrightarrow> P x"
  shows "sum_list (map f (filter P xs)) = sum_list (map f xs)"
  using assms by (induction xs) auto

lemma group_date:
  "e \<in> set (group_rows stay_of (stay_of r) df) \<Longrightarrow> date e = date r"
  by (auto simp: group_rows_def stay_of_def)

lemma group_filter_date:
  "filter (\<lambda>e. P (date e) e) (group_rows stay_of (stay_of r) df) =
   filter (\<lambda>e. P (date r) e) (group_rows stay_of (stay_of r) df)"
  by (rule filter_cong) (auto dest: group_date)

lemma kpi_row_facts:
  assumes "agg_row.truncate r \<in> set (daily_kpi_sold (sales df))"
  shows "0 < total_sold r"
    and "total_sold r = sum_list (map sold (group_rows stay_of (stay_of r) (sales df)))"
    and "total_revenue r = sum_list (map revenue (group_rows stay_of (stay_of r) (sales df)))"
    and "30 \<le> agg_row.max_stock r"
    and "agg_row.max_stock r = Max (stock ` {s \<in> set df. listing_of s = listing_of r})"
proof -
  from assms have a: "agg_row.truncate r \<in> set (daily_kpi_agg (sales df))" and
    p: "0 < total_sold (agg_row.truncate r)"
    by (auto simp: daily_kpi_sold_def)
  from p show "0 < total_sold r" by simp
  from daily_kpi_agg_rows(3)[OF a]
  show "total_sold r = sum_list (map sold (group_rows stay_of (stay_of r) (sales df)))" by simp
  from daily_kpi_agg_rows(2)[OF a]
  show "total_revenue r = sum_list (map revenue (group_rows stay_of (stay_of r) (sales df)))" by simp
  from daily_kpi_agg_max_stock(2)[OF a] show "30 \<le> agg_row.max_stock r" by simp
  from daily_kpi_agg_max_stock(1)[OF a]
  show "agg_row.max_stock r = Max (stock ` {s \<in> set df. listing_of s = listing_of r})" by simp
qed

lemma late_ratio_generic:
  fixes r :: "'a kpi_row_scheme"
  assumes t: "agg_row.truncate r \<in> set (daily_kpi_sold (sales df))"
    and l: "sold_last_30 r = merge_left_fillna (sold_last_30_agg (sales df)) (stay_of r)"
    and q: "last_30_days_booking_ratio r = ratio (of_int (sold_last_30 r)) (of_int (total_sold r))"
  shows "0 < total_sold r \<and>
      total_sold r = sum_list (map sold (group_rows stay_of (stay_of r) (sales df))) \<and>
      sold_last_30 r =
        sum_list (map sold (filter (\<lambda>e. date r - Timedelta_days 30 \<le> created_at e)
                              (group_rows stay_of (stay_of r) (sales df)))) \<and>
      last_30_days_booking_ratio r = Fin (of_int (sold_last_30 r) / of_int (total_sold r)) \<and>
      (map_of (sold_last_30_agg (sales df)) (stay_of r) = None \<longrightarrow>
         sold_last_30 r = 0 \<and> last_30_days_booking_ratio r = Fin 0) \<and>
      ((\<forall>e \<in> set (group_rows stay_of (stay_of r) (sales df)).
           0 < sold e \<longrightarrow> date r - Timedelta_days 30 \<le> created_at e) \<longrightarrow>
         last_30_days_booking_ratio r = Fin 1 \<and> fval_ge (last_30_days_booking_ratio r) (Fin (1 / 2)))"
proof -
  let ?g = "group_rows stay_of (stay_of r) (sales df)"
  note f = kpi_row_facts[OF t]
  have pos: "0 < total_sold r" by (rule f(1))
  have late: "sold_last_30 r = sum_list (map sold (filter (\<lambda>e. date r - Timedelta_days 30 \<le> created_at e) ?g))"
    unfolding l sold_last_30_value
    using group_filter_date[of "\<lambda>d e. d - Timedelta_days 30 \<le> created_at e" r "sales df"] by simp
  have rat: "last_30_days_booking_ratio r = Fin (of_int (sold_last_30 r) / of_int (total_sold r))"
    unfolding q using pos by (simp add: ratio_Fin)
  have none: "sold_last_30 r = 0 \<and> last_30_days_booking_ratio r = Fin 0"
    if "map_of (sold_last_30_agg (sales df)) (stay_of r) = None"
  proof -
    from that have "sold_last_30 r = 0" by (simp add: l merge_left_fillna_def)
    then show ?thesis using rat by simp
  qed
  have all: "last_30_days_booking_ratio r = Fin 1 \<and> fval_ge (last_30_days_booking_ratio r) (Fin (1 / 2))"
    if w: "\<forall>e \<in> set ?g. 0 < sold e \<longrightarrow> date r - Timedelta_days 30 \<le> created_at e"
  proof -
    have nn: "0 \<le> sold e" if "e \<in> set ?g" for e
      using that by (auto simp: group_rows_def intro: sold_nonneg)
    have "sum_list (map sold (filter (\<lambda>e. date r - Timedelta_days 30 \<le> created_at e) ?g)) = sum_list (map sold ?g)"
    proof (rule sum_list_filter_all)
      fix e assume e: "e \<in> set ?g" "sold e \<noteq> 0"
      with nn[OF e(1)] have "0 < sold e" by simp
      with w e(1) show "date r - Timedelta_days 30 \<le> created_at e" by blast
    qed
    then have "sold_last_30 r = total_sold r" by (simp add: late f(2))
    with pos rat have "last_30_days_booking_ratio r = Fin 1" by simp
    then show ?thesis by (simp add: fval_ge_def less_eq_fval_def)
  qed
  from pos f(2) late rat none all show ?thesis by blast
qed

lemma ratio_zero_denominator:
  "ratio a 0 = (if a = 0 then Fin 0 else if 0 < a then PInf else NInf)"
  by (simp add: ratio_def pd_div_def)

lemma pd_div_NaN: "pd_div a b = NaN \<longleftrightarrow> a = 0 \<and> b = 0"
  by (simp add: pd_div_def)

lemma sum_list_map_zero:
  "(\<And>x. x \<in> set xs \<Longrightarrow> f x = 0) \<Longrightarrow> sum_list (map f xs) = (0::'b::monoid_add)"
  by (induction xs) auto

lemma unsold_group:
  assumes a: "a \<in> set (daily_kpi_agg (sales df))" and z: "total_sold a = 0"
  shows "total_revenue a = 0"
    and "merge_left_fillna (sold_last_30_agg (sales df)) (stay_of a) = 0"
proof -
  let ?g = "group_rows stay_of (stay_of a) (sales df)"
  have mem: "e \<in> set (sales df)" if "e \<in> set ?g" for e
    using that by (simp add: group_rows_def)
  have sz: "sum_list (map sold ?g) = 0"
    using daily_kpi_agg_rows(3)[OF a] z by simp
  have "\<And>x. x \<in> set (map sold ?g) \<Longrightarrow> 0 \<le> x"
    using mem by (auto intro: sold_nonneg)
  then have "sum_list (map sold ?g) = 0 \<longleftrightarrow> (\<forall>x \<in> set (map sold ?g). x = 0)"
    by (rule sum_list_nonneg_eq_0_iff)
  with sz have "\<forall>x \<in> set (map sold ?g). x = 0"
    by blast
  then have s0: "sold e = 0" if "e \<in> set ?g" for e
    using that by simp
  have "revenue e = 0" if "e \<in> set ?g" for e
    using revenue_sales[OF mem[OF that]] s0[OF that] by simp
  then have "sum_list (map revenue ?g) = 0" by (rule sum_list_map_zero)
  then show "total_revenue a = 0"
    using daily_kpi_agg_rows(2)[OF a] by simp
  have "sum_list (map sold (filter (\<lambda>e. date e - Timedelta_days 30 \<le> created_at e) ?g)) = 0"
    by (rule sum_list_map_zero) (simp add: s0)
  then show "merge_left_fillna (sold_last_30_agg (sales df)) (stay_of a) = 0"
    by (simp add: sold_last_30_value)
qed

section \<open>Lemmas on quantile edges, sorting and the first row of a group\<close>

lemma length_linspace: "0 < q \<Longrightarrow> length (linspace q) = Suc q"
  by (simp add: linspace_def)

lemma length_quantile_edges: "0 < q \<Longrightarrow> length (quantile_edges x q) = Suc q"
  by (simp add: quantile_edges_def length_linspace)

lemma length_unique: "length (unique xs) = card (set xs)"
  by (simp add: unique_def length_remdups_card_conv)

lemma length_unique_less: "\<not> distinct xs \<Longrightarrow> length (unique xs) < length xs"
  using card_length[of xs] card_distinct[of xs] by (auto simp: length_unique le_less)

lemma qcut_duplicate_edges:
  assumes "2 \<le> q" "length labels = q" "\<not> distinct (quantile_edges x q)"
  shows "qcut x q labels = Inl ValueError"
proof -
  have len: "length (quantile_edges x q) = Suc q"
    using assms(1) by (simp add: length_quantile_edges)
  have lt: "length (unique (quantile_edges x q)) < Suc q"
    using length_unique_less[OF assms(3)] len by simp
  with assms(1) have "q \<noteq> length (unique (quantile_edges x q)) - 1" by arith
  with assms(1,2) len lt show ?thesis
    by (simp add: qcut_def Let_def)
qed

lemma price_tier_column_fallback:
  assumes "2 \<le> num_tiers" "num_tiers \<le> 3" "\<not> distinct (quantile_edges cps num_tiers)"
  shows "price_tier_column num_tiers cps = (True, None, map (\<lambda>_. Some Single_group) cps)"
proof -
  have "length (take num_tiers (rev [Matsu_high, Take_mid, Ume_low])) = num_tiers"
    using assms(2) by simp
  from qcut_duplicate_edges[OF assms(1) this assms(3)]
  show ?thesis by (simp add: price_tier_column_def)
qed

lemma sorted_two_values:
  fixes x y :: "'a::linorder"
  assumes "sorted xs" "set xs \<subseteq> {x, y}" "x < y"
  shows "\<exists>j \<le> length xs. xs = replicate j x @ replicate (length xs - j) y"
  using assms
proof (induction xs)
  case Nil
  then show ?case by simp
next
  case (Cons z zs)
  then obtain j where j: "j \<le> length zs" "zs = replicate j x @ replicate (length zs - j) y"
    by auto
  from Cons.prems have z: "z = x \<or> z = y" by auto
  show ?case
  proof (cases "z = x")
    case True
    have "z # zs = replicate (Suc j) x @ replicate (length (z # zs) - Suc j) y"
      using j True by simp
    with j(1) show ?thesis by (metis Suc_le_mono length_Cons)
  next
    case False
    with z have zy: "z = y" by simp
    have "\<forall>w \<in> set zs. w = y"
    proof
      fix w assume w: "w \<in> set zs"
      with Cons.prems(1) zy have "y \<le> w" by auto
      moreover from w Cons.prems(2) have "w = x \<or> w = y" by auto
      ultimately show "w = y" using \<open>x < y\<close> by auto
    qed
    then have "zs = replicate (length zs) y"
      by (simp add: replicate_length_same)
    then have "z # zs = replicate 0 x @ replicate (length (z # zs) - 0) y"
      using zy by simp
    then show ?thesis by blast
  qed
qed

lemma lerp_same [simp]: "lerp (Fin c) (Fin c) t = Fin c"
  by (simp add: lerp_def)

lemma quantile_thirds_lo:
  "nat \<lfloor>(of_nat k / of_nat 3 :: rat) * of_nat m\<rfloor> = (k * m) div 3"
proof -
  have "(of_nat k / of_nat 3 :: rat) * of_nat m = of_nat (k * m) / of_nat 3"
    by simp
  then show ?thesis
    by (simp only: floor_divide_of_nat_eq nat_int)
qed


lemma lerp_zero [simp]: "lerp (Fin a) (Fin c) 0 = Fin a"
  by (simp add: lerp_def)

lemma quantile_thirds:
  assumes "vals \<noteq> []"
  shows "quantile vals (of_nat k / of_nat 3) =
           lerp (vals ! ((k * (length vals - 1)) div 3))
                (vals ! min ((k * (length vals - 1)) div 3 + 1) (length vals - 1))
                ((of_nat k / of_nat 3) * of_nat (length vals - 1) - of_nat ((k * (length vals - 1)) div 3))"
  using assms by (simp only: quantile_def Let_def quantile_thirds_lo if_False)

lemma linspace_3_nth: "k < 4 \<Longrightarrow> linspace 3 ! k = of_nat k / of_nat 3"
  by (simp add: linspace_def del: upt_Suc)

lemma Fin_less [simp]: "Fin a < Fin b \<longleftrightarrow> a < b"
  by (auto simp: less_fval_def)

lemma two_prices_duplicate_edges:
  assumes s: "set cps = {Fin a, Fin b}" and ne: "a \<noteq> b" and len: "3 \<le> length cps"
  shows "\<not> distinct (quantile_edges cps 3)"
proof -
  obtain x y where xy: "x < y" and sxy: "set cps = {Fin x, Fin y}"
  proof (cases "a < b")
    case True
    with s that show ?thesis by blast
  next
    case False
    with ne have "b < a" by simp
    moreover from s have "set cps = {Fin b, Fin a}" by auto
    ultimately show ?thesis using that by blast
  qed
  define vals where "vals = sort (filter (\<lambda>v. v \<noteq> NaN) cps)"
  have nonan: "filter (\<lambda>v. v \<noteq> NaN) cps = cps"
    using sxy by (auto simp: filter_id_conv)
  have vals: "vals = sort cps" by (simp add: vals_def nonan)
  define m where "m = length vals - 1"
  have n: "length vals = Suc m" and m2: "2 \<le> m"
    using len by (simp_all add: m_def vals)
  have ne_vals: "vals \<noteq> []" using n by auto
  have sv: "set vals = {Fin x, Fin y}" by (simp add: vals sxy)
  have "sorted vals" by (simp add: vals)
  from sorted_two_values[OF this, of "Fin x" "Fin y"] sv xy
  obtain j where j: "j \<le> length vals" "vals = replicate j (Fin x) @ replicate (length vals - j) (Fin y)"
    by auto
  have j1: "0 < j"
  proof (rule ccontr)
    assume "\<not> 0 < j"
    with j(2) have "set vals \<subseteq> {Fin y}" by (metis append_Nil gr0I replicate_0 set_replicate_conv_if subset_refl empty_subsetI)
    with sv xy show False by auto
  qed
  have j2: "j \<le> m"
  proof (rule ccontr)
    assume "\<not> j \<le> m"
    with j(1) n have "j = length vals" by simp
    with j(2) have "set vals \<subseteq> {Fin x}" by (metis append_Nil2 diff_self_eq_0 replicate_0 set_replicate_conv_if subset_refl empty_subsetI)
    with sv xy show False by auto
  qed
  have lo: "vals ! i = Fin x" if "i < j" for i
    using that by (subst j(2)) (simp add: nth_append)
  have hi: "vals ! i = Fin y" if "j \<le> i" "i \<le> m" for i
    using that n by (subst j(2)) (simp add: nth_append)
  have fin: "\<exists>c. vals ! i = Fin c" if "i \<le> m" for i
    using lo[of i] hi[of i] that by (cases "i < j") auto
  have edge: "quantile_edges cps 3 ! k = quantile vals (of_nat k / of_nat 3)" if "k < 4" for k
    using that by (simp add: quantile_edges_def vals_def[symmetric] length_linspace linspace_3_nth)
  have q: "quantile vals (of_nat k / of_nat 3) =
           lerp (vals ! ((k * m) div 3)) (vals ! min ((k * m) div 3 + 1) m)
                ((of_nat k / of_nat 3) * of_nat m - of_nat ((k * m) div 3))" for k
    using quantile_thirds[OF ne_vals, of k] by (simp add: m_def)
  have e0: "quantile_edges cps 3 ! 0 = Fin x"
  proof -
    obtain c where "vals ! min 1 m = Fin c" using fin[of "min 1 m"] by auto
    then show ?thesis using edge[of 0] q[of 0] lo[of 0] j1 by simp
  qed
  have e3: "quantile_edges cps 3 ! 3 = Fin y"
    using edge[of 3] q[of 3] hi[of m] j2 by simp
  have len4: "length (quantile_edges cps 3) = 4"
    by (simp add: length_quantile_edges)
  show ?thesis
  proof (cases "m div 3 + 1 < j")
    case True
    then have "m div 3 < j" by simp
    moreover have "min (m div 3 + 1) m = m div 3 + 1" using m2 by simp
    ultimately have "quantile_edges cps 3 ! 1 = Fin x"
      using edge[of 1] q[of 1] lo[of "m div 3"] lo[of "m div 3 + 1"] True by simp
    with e0 have "quantile_edges cps 3 ! 0 = quantile_edges cps 3 ! 1" by simp
    then show ?thesis
      using nth_eq_iff_index_eq[of "quantile_edges cps 3" 0 1] len4 by auto
  next
    case False
    have "m div 3 + 1 \<le> (2 * m) div 3" using m2 by arith
    with False have a: "j \<le> (2 * m) div 3" by simp
    have b: "(2 * m) div 3 \<le> m" by arith
    have c: "j \<le> min ((2 * m) div 3 + 1) m" "min ((2 * m) div 3 + 1) m \<le> m"
      using a j2 by simp_all
    have "quantile_edges cps 3 ! 2 = Fin y"
      using edge[of 2] q[of 2] hi[OF a b] hi[OF c] by simp
    with e3 have "quantile_edges cps 3 ! 2 = quantile_edges cps 3 ! 3" by simp
    then show ?thesis
      using nth_eq_iff_index_eq[of "quantile_edges cps 3" 2 3] len4 by auto
  qed
qed

lemma sorted_wrt_desc_rev_sort_key:
  assumes "\<And>r. r \<in> set xs \<Longrightarrow> key r \<noteq> NaN"
  shows "sorted_wrt (\<lambda>a b. desc_before (key a) (key b)) (rev (sort_key key xs))"
proof -
  have "sorted_wrt (\<lambda>a b. key a \<le> key b) (sort_key key xs)"
    using sorted_sort_key[of key xs] by (simp add: sorted_map)
  then have "sorted_wrt (\<lambda>a b. key b \<le> key a) (rev (sort_key key xs))"
    by (simp add: sorted_wrt_rev)
  then show ?thesis
    by (rule sorted_wrt_mono_rel[rotated]) (use assms in \<open>auto simp: desc_before_def\<close>)
qed

lemma sorted_wrt_desc_NaN:
  assumes "\<And>r. r \<in> set xs \<Longrightarrow> key r = NaN"
  shows "sorted_wrt (\<lambda>a b. desc_before (key a) (key b)) xs"
  using assms by (induction xs) (auto simp: desc_before_def)

lemma mset_NaN_partition:
  "mset (filter (\<lambda>r. key r \<noteq> NaN) df) + mset (filter (\<lambda>r. key r = NaN) df) = mset df"
  by (induction df) auto

lemma sorts_descending_stable: "sorts_descending key (sort_values_stable key)"
  unfolding sorts_descending_def sort_values_stable_def
proof (intro allI conjI)
  fix df :: "'a list"
  show "mset (rev (sort_key key (rev (filter (\<lambda>r. key r \<noteq> NaN) df))) @ filter (\<lambda>r. key r = NaN) df) = mset df"
    by (simp add: mset_NaN_partition)
  show "sorted_wrt (\<lambda>a b. desc_before (key a) (key b))
          (rev (sort_key key (rev (filter (\<lambda>r. key r \<noteq> NaN) df))) @ filter (\<lambda>r. key r = NaN) df)"
    unfolding sorted_wrt_append
    by (intro conjI sorted_wrt_desc_rev_sort_key sorted_wrt_desc_NaN) (auto simp: desc_before_def)
qed


lemma sorts_descending_set: "sorts_descending key srt \<Longrightarrow> set (srt df) = set df"
  unfolding sorts_descending_def by (metis set_mset_mset)





lemma kpi02_extend_fields [simp]:
  "price_tier (agg_row.extend a \<lparr>RevPAR = v, sold_last_30 = l, last_30_days_booking_ratio = q,
       ADR = d, characteristic_price = c, price_tier = t\<rparr>) = t"
  "characteristic_price (agg_row.extend a \<lparr>RevPAR = v, sold_last_30 = l, last_30_days_booking_ratio = q,
       ADR = d, characteristic_price = c, price_tier = t\<rparr>) = c"
  by (simp_all add: agg_row.extend_def)

lemma daily_kpi02_columns:
  assumes p: "price_tier_column n (map snd (merge_characteristic_price (daily_kpi_sold df))) = (w, cats, tiers)"
  shows "fst (daily_kpi02 n df) = w" and "fst (snd (daily_kpi02 n df)) = cats"
    and "map price_tier (snd (snd (daily_kpi02 n df))) = tiers"
    and "map characteristic_price (snd (snd (daily_kpi02 n df))) = map snd (merge_characteristic_price (daily_kpi_sold df))"
proof -
  have len: "length tiers = length (merge_characteristic_price (daily_kpi_sold df))"
    using length_price_tier_column[OF p] by simp
  show "fst (daily_kpi02 n df) = w" and "fst (snd (daily_kpi02 n df)) = cats"
    by (simp_all add: daily_kpi02_def Let_def p)
  show "map price_tier (snd (snd (daily_kpi02 n df))) = tiers"
    unfolding daily_kpi02_def Let_def p
    by (rule nth_equalityI) (simp_all add: len Let_def case_prod_unfold)
  show "map characteristic_price (snd (snd (daily_kpi02 n df))) = map snd (merge_characteristic_price (daily_kpi_sold df))"
    unfolding daily_kpi02_def Let_def p
    by (rule nth_equalityI) (simp_all add: len Let_def case_prod_unfold)
qed

lemma characteristic_price_column:
  "map characteristic_price (snd (snd (daily_kpi02 n df))) = map snd (merge_characteristic_price (daily_kpi_sold df))"
proof -
  obtain w cats tiers where "price_tier_column n (map snd (merge_characteristic_price (daily_kpi_sold df))) = (w, cats, tiers)"
    by (metis prod_cases3)
  then show ?thesis by (rule daily_kpi02_columns(4))
qed

lemma groupby_tier_first_plain:
  assumes "g \<in> set (groupby_tier_first observed None df)"
  shows "snd g \<noteq> None" and "\<exists>r \<in> set df. price_tier r = Some (fst g)"
proof -
  from assms obtain c where c: "c \<in> set (List.map_filter price_tier df)"
    and g: "g = (c, find (\<lambda>r. price_tier r = Some c) df)"
    by (auto simp: groupby_tier_first_def)
  from c obtain r where r: "r \<in> set df" "price_tier r = Some c"
    by (auto simp: set_map_filter)
  then show "\<exists>r \<in> set df. price_tier r = Some (fst g)" by (auto simp: g)
  from r show "snd g \<noteq> None" by (auto simp: g find_None_iff)
qed

section \<open>Lemmas on the selection\<close>














lemma groupby_tier_first_entry:
  "(t, g) \<in> set (groupby_tier_first observed cats ys) \<Longrightarrow> g = find (\<lambda>r. price_tier r = Some t) ys"
  by (auto simp: groupby_tier_first_def Let_def)






lemma price_tier_column_plain:
  assumes "price_tier_column n cps = (w, None, tiers)"
  shows "tiers = map (\<lambda>_. Some Single_group) cps" and "w"
  using assms by (auto simp: price_tier_column_def Let_def split: sum.splits)

lemma price_tier_column_length_cats:
  assumes "price_tier_column n cps = (w, Some cs, tiers)"
  shows "length cs \<le> n"
  using assms by (auto simp: price_tier_column_def Let_def split: sum.splits)

lemma daily_kpi02_plain:
  assumes "fst (snd (daily_kpi02 n df)) = None"
  shows "\<forall>r \<in> set (snd (snd (daily_kpi02 n df))). price_tier r = Some Single_group"
proof -
  obtain w cats tiers where p: "price_tier_column n (map snd (merge_characteristic_price (daily_kpi_sold df))) = (w, cats, tiers)"
    by (metis prod_cases3)
  note c = daily_kpi02_columns[OF p]
  from c(2) assms have "cats = None" by simp
  from price_tier_column_plain(1)[OF p[unfolded this]] c(3)
  have m: "map price_tier (snd (snd (daily_kpi02 n df))) = map (\<lambda>_. Some Single_group) (map snd (merge_characteristic_price (daily_kpi_sold df)))"
    by simp
  show ?thesis
  proof
    fix r assume "r \<in> set (snd (snd (daily_kpi02 n df)))"
    then have "price_tier r \<in> set (map price_tier (snd (snd (daily_kpi02 n df))))" by simp
    then show "price_tier r = Some Single_group" unfolding m by auto
  qed
qed

lemma daily_kpi02_length_cats:
  assumes "fst (snd (daily_kpi02 n df)) = Some cs"
  shows "length cs \<le> n"
proof -
  obtain w cats tiers where p: "price_tier_column n (map snd (merge_characteristic_price (daily_kpi_sold df))) = (w, cats, tiers)"
    by (metis prod_cases3)
  from daily_kpi02_columns(2)[OF p] assms have "cats = Some cs" by simp
  from price_tier_column_length_cats[OF p[unfolded this]] show ?thesis .
qed

lemma length_remdups_single:
  assumes "\<forall>x \<in> set xs. x = c"
  shows "length (remdups xs) \<le> 1"
proof -
  have "set xs \<subseteq> {c}" using assms by auto
  then have "card (set xs) \<le> card {c}" by (intro card_mono) simp_all
  then show ?thesis by (simp add: length_remdups_card_conv)
qed

section \<open>Sale derivation\<close>

text \<open>
  Claim C2. Take any cleaned table \<open>df\<close> and any (listing, stay date) \<open>k\<close>, and let \<open>g\<close> be the rows
  of that group in the frame \<^verbatim>\<open>df\<close> after step 2. Then \<open>g\<close> is the snapshots of \<open>k\<close> in a retained
  listing, sorted by \<^verbatim>\<open>created_at\<close> ascending; the first row of \<open>g\<close> has \<open>sold = 0\<close>, every later
  row has \<open>sold = max (stock of the row before - stock) 0\<close>, and every row has
  \<open>revenue = sold * price\<close> with its own price. In particular, when the stocks of \<open>g\<close> are
  30, 30, 20, 20, 10, the sold values are 0, 0, 10, 0, 10 and the row of \<^verbatim>\<open>daily_kpi\<close> for \<open>k\<close> has
  \<open>total_sold = 20\<close>.
\<close>

theorem sale_derivation:
  "let g = group_rows stay_of k (sales df) in
     map snapshot.truncate g =
       sort_key created_at
         (filter (\<lambda>s. stay_of s = k \<and> 30 \<le> Max (stock ` {s' \<in> set df. listing_of s' = listing_of s})) df) \<and>
     sorted (map created_at g) \<and>
     (\<forall>i < length g.
        sold (g ! i) = (if i = 0 then 0 else max (stock (g ! (i - 1)) - stock (g ! i)) 0) \<and>
        revenue (g ! i) = of_int (sold (g ! i)) * price (g ! i)) \<and>
     (map stock g = [30, 30, 20, 20, 10] \<longrightarrow>
        map sold g = [0, 0, 10, 0, 10] \<and>
        (\<exists>a \<in> set (daily_kpi_agg (sales df)). stay_of a = k \<and> total_sold a = 20))"
proof -
  let ?g = "group_rows stay_of k (sales df)"
  have 1: "map snapshot.truncate ?g =
       sort_key created_at
         (filter (\<lambda>s. stay_of s = k \<and> 30 \<le> Max (stock ` {s' \<in> set df. listing_of s' = listing_of s})) df)"
    by (rule group_rows_sales)
  have "map created_at ?g = map created_at (group_rows stay_of k (sort_values (capacity_filter df)))"
    by (simp add: sales_def group_derive_sales) (rule nth_equalityI, simp_all)
  then have 2: "sorted (map created_at ?g)"
    by (simp add: sorted_group_created_at)
  have 3: "\<forall>i < length ?g.
        sold (?g ! i) = (if i = 0 then 0 else max (stock (?g ! (i - 1)) - stock (?g ! i)) 0) \<and>
        revenue (?g ! i) = of_int (sold (?g ! i)) * price (?g ! i)"
  proof (intro allI impI conjI)
    fix i assume i: "i < length ?g"
    show "sold (?g ! i) = (if i = 0 then 0 else max (stock (?g ! (i - 1)) - stock (?g ! i)) 0)"
      by (rule sold_nth[OF i])
    have "?g ! i \<in> set (sales df)"
      using i nth_mem[OF i] by (auto simp: group_rows_def)
    then show "revenue (?g ! i) = of_int (sold (?g ! i)) * price (?g ! i)"
      by (rule revenue_sales)
  qed
  have 4: "map sold ?g = [0, 0, 10, 0, 10] \<and>
        (\<exists>a \<in> set (daily_kpi_agg (sales df)). stay_of a = k \<and> total_sold a = 20)"
    if st: "map stock ?g = [30, 30, 20, 20, 10]"
  proof -
    have so: "map sold ?g = [0, 0, 10, 0, 10]"
      by (subst map_sold_group) (simp add: st)
    from st have "?g \<noteq> []" by auto
    then have "k \<in> stay_of ` set (sales df)"
      by (simp add: group_rows_Nil)
    then obtain a where a: "a \<in> set (daily_kpi_agg (sales df))" "stay_of a = k"
      using daily_kpi_agg_ex by blast
    have "total_sold a = sum_list (map sold ?g)"
      using daily_kpi_agg_rows(3)[OF a(1)] by (simp add: a(2))
    then have "total_sold a = 20" by (simp add: so)
    with a so show ?thesis by blast
  qed
  show ?thesis
    unfolding Let_def using 1 2 3 4 by blast
qed

theorem sale_derivation_witness:
  "map stock (group_rows stay_of (1, 1, 1, 100) (sales example_df)) = [30, 30, 20, 20, 10] \<and>
   sorted (map created_at (group_rows stay_of (1, 1, 1, 100) (sales example_df))) \<and>
   sold (group_rows stay_of (1, 1, 1, 100) (sales example_df) ! 2) = 10 \<and>
   revenue (group_rows stay_of (1, 1, 1, 100) (sales example_df) ! 2) = 50 \<and>
   map sold (group_rows stay_of (1, 1, 1, 100) (sales example_df)) = [0, 0, 10, 0, 10] \<and>
   (\<exists>a \<in> set (daily_kpi_agg (sales example_df)). stay_of a = (1, 1, 1, 100) \<and> total_sold a = 20)"
proof -
  let ?g = "group_rows stay_of (1, 1, 1, 100) (sales example_df)"
  have st: "map stock ?g = [30, 30, 20, 20, 10]"
    by code_simp
  have ev: "(2::nat) < length ?g" "price (?g ! 2) = 5" "stock (?g ! (2 - 1)) = 30" "stock (?g ! 2) = 20"
    by code_simp+
  note main = sale_derivation[of "(1, 1, 1, 100)" example_df, unfolded Let_def]
  from main ev(1) have "sold (?g ! 2) = (if (2::nat) = 0 then 0 else max (stock (?g ! (2 - 1)) - stock (?g ! 2)) 0) \<and>
        revenue (?g ! 2) = of_int (sold (?g ! 2)) * price (?g ! 2)" by blast
  then have a: "sold (?g ! 2) = 10" "revenue (?g ! 2) = 50"
    unfolding ev by simp_all
  from main st have b: "sorted (map created_at ?g)" "map sold ?g = [0, 0, 10, 0, 10]"
    "\<exists>a \<in> set (daily_kpi_agg (sales example_df)). stay_of a = (1, 1, 1, 100) \<and> total_sold a = 20"
    by blast+
  show ?thesis using st a b by blast
qed

section \<open>Selection of the exemplars\<close>




section \<open>Listing capacity and the capacity filter\<close>

text \<open>
  Claim C4. For every cleaned table \<open>df\<close>: the merge gives every row the column \<^verbatim>\<open>max_stock\<close>, the
  largest stock over all rows of the row's listing (all stay dates); the rows kept by the
  filter, and so the rows of the frame \<^verbatim>\<open>df\<close> that every later step reads, are exactly the rows
  of the listings whose \<^verbatim>\<open>max_stock\<close> is at least 30; and every row of \<^verbatim>\<open>daily_kpi\<close> carries that
  \<^verbatim>\<open>max_stock\<close>, at least 30, in the aggregated frame and in the finished \<^verbatim>\<open>daily_kpi\<close> of both
  scripts. The boundary (29 out, 30 in) is the witness.
\<close>

theorem listing_capacity_filter:
  "map snapshot.truncate (merge_max_stock df) = df \<and>
   (\<forall>r \<in> set (merge_max_stock df).
      capacity_row.max_stock r = Max (stock ` {s \<in> set df. listing_of s = listing_of r})) \<and>
   map snapshot.truncate (capacity_filter df) =
     filter (\<lambda>s. 30 \<le> Max (stock ` {s' \<in> set df. listing_of s' = listing_of s})) df \<and>
   mset (map snapshot.truncate (sales df)) =
     mset (filter (\<lambda>s. 30 \<le> Max (stock ` {s' \<in> set df. listing_of s' = listing_of s})) df) \<and>
   (\<forall>e \<in> set (sales df).
      capacity_row.max_stock e = Max (stock ` {s \<in> set df. listing_of s = listing_of e}) \<and>
      30 \<le> capacity_row.max_stock e) \<and>
   (\<forall>a \<in> set (daily_kpi_agg (sales df)).
      agg_row.max_stock a = Max (stock ` {s \<in> set df. listing_of s = listing_of a}) \<and>
      30 \<le> agg_row.max_stock a) \<and>
   (\<forall>r \<in> set (daily_kpi01 (sales df)).
      agg_row.max_stock r = Max (stock ` {s \<in> set df. listing_of s = listing_of r}) \<and>
      30 \<le> agg_row.max_stock r) \<and>
   (\<forall>r \<in> set (snd (snd (daily_kpi02 num_tiers (sales df)))).
      agg_row.max_stock r = Max (stock ` {s \<in> set df. listing_of s = listing_of r}) \<and>
      30 \<le> agg_row.max_stock r)"
proof (intro conjI ballI)
  show "map snapshot.truncate (merge_max_stock df) = df"
    by (simp add: merge_max_stock_eq o_def)
  show "capacity_row.max_stock r = Max (stock ` {s \<in> set df. listing_of s = listing_of r})"
    if "r \<in> set (merge_max_stock df)" for r
    using that by (auto simp: merge_max_stock_eq)
  show "map snapshot.truncate (capacity_filter df) =
     filter (\<lambda>s. 30 \<le> Max (stock ` {s' \<in> set df. listing_of s' = listing_of s})) df"
    by (rule map_truncate_capacity_filter)
  show "mset (map snapshot.truncate (sales df)) =
     mset (filter (\<lambda>s. 30 \<le> Max (stock ` {s' \<in> set df. listing_of s' = listing_of s})) df)"
    by (rule mset_sales)
  show "capacity_row.max_stock e = Max (stock ` {s \<in> set df. listing_of s = listing_of e})"
    if "e \<in> set (sales df)" for e
    by (rule sales_max_stock(1)[OF that])
  show "30 \<le> capacity_row.max_stock e" if "e \<in> set (sales df)" for e
    by (rule sales_max_stock(2)[OF that])
  show "agg_row.max_stock a = Max (stock ` {s \<in> set df. listing_of s = listing_of a})"
    if "a \<in> set (daily_kpi_agg (sales df))" for a
    by (rule daily_kpi_agg_max_stock(1)[OF that])
  show "30 \<le> agg_row.max_stock a" if "a \<in> set (daily_kpi_agg (sales df))" for a
    by (rule daily_kpi_agg_max_stock(2)[OF that])
  show "agg_row.max_stock r = Max (stock ` {s \<in> set df. listing_of s = listing_of r})"
    if "r \<in> set (daily_kpi01 (sales df))" for r
    by (rule kpi_row_facts(5)[OF daily_kpi01_row(1)[OF that]])
  show "30 \<le> agg_row.max_stock r" if "r \<in> set (daily_kpi01 (sales df))" for r
    by (rule kpi_row_facts(4)[OF daily_kpi01_row(1)[OF that]])
  show "agg_row.max_stock r = Max (stock ` {s \<in> set df. listing_of s = listing_of r})"
    if "r \<in> set (snd (snd (daily_kpi02 num_tiers (sales df))))" for r
    by (rule kpi_row_facts(5)[OF daily_kpi02_row(1)[OF that]])
  show "30 \<le> agg_row.max_stock r" if "r \<in> set (snd (snd (daily_kpi02 num_tiers (sales df))))" for r
    by (rule kpi_row_facts(4)[OF daily_kpi02_row(1)[OF that]])
qed

theorem listing_capacity_filter_witness:
  "capacity_row.max_stock (merge_max_stock boundary_df ! 0) = 30 \<and>
   capacity_row.max_stock (merge_max_stock boundary_df ! 1) = 29 \<and>
   mset (map snapshot.truncate (sales boundary_df)) = mset [snap 1 100 0 30 5, snap 1 100 1 20 5] \<and>
   sales boundary_df ! 1 \<in> set (sales boundary_df) \<and>
   30 \<le> capacity_row.max_stock (sales boundary_df ! 1) \<and>
   daily_kpi_agg (sales boundary_df) ! 0 \<in> set (daily_kpi_agg (sales boundary_df)) \<and>
   30 \<le> agg_row.max_stock (daily_kpi_agg (sales boundary_df) ! 0) \<and>
   daily_kpi01 (sales boundary_df) ! 0 \<in> set (daily_kpi01 (sales boundary_df)) \<and>
   30 \<le> agg_row.max_stock (daily_kpi01 (sales boundary_df) ! 0) \<and>
   snd (snd (daily_kpi02 3 (sales boundary_df))) ! 0 \<in> set (snd (snd (daily_kpi02 3 (sales boundary_df)))) \<and>
   30 \<le> agg_row.max_stock (snd (snd (daily_kpi02 3 (sales boundary_df))) ! 0)"
proof -
  note main = listing_capacity_filter[of boundary_df 3]
  have mem: "merge_max_stock boundary_df ! 0 \<in> set (merge_max_stock boundary_df)"
    "merge_max_stock boundary_df ! 1 \<in> set (merge_max_stock boundary_df)"
    "sales boundary_df ! 1 \<in> set (sales boundary_df)"
    "daily_kpi_agg (sales boundary_df) ! 0 \<in> set (daily_kpi_agg (sales boundary_df))"
    "daily_kpi01 (sales boundary_df) ! 0 \<in> set (daily_kpi01 (sales boundary_df))"
    "snd (snd (daily_kpi02 3 (sales boundary_df))) ! 0 \<in> set (snd (snd (daily_kpi02 3 (sales boundary_df))))"
    by code_simp+
  have ev: "Max (stock ` {s \<in> set boundary_df. listing_of s = listing_of (merge_max_stock boundary_df ! 0)}) = 30"
    "Max (stock ` {s \<in> set boundary_df. listing_of s = listing_of (merge_max_stock boundary_df ! 1)}) = 29"
    "filter (\<lambda>s. 30 \<le> Max (stock ` {s' \<in> set boundary_df. listing_of s' = listing_of s})) boundary_df
       = [snap 1 100 0 30 5, snap 1 100 1 20 5]"
    by code_simp+
  note m2 = main[THEN conjunct2, THEN conjunct1]
  note m4 = main[THEN conjunct2, THEN conjunct2, THEN conjunct2, THEN conjunct1]
  note m5 = main[THEN conjunct2, THEN conjunct2, THEN conjunct2, THEN conjunct2, THEN conjunct1]
  note m6 = main[THEN conjunct2, THEN conjunct2, THEN conjunct2, THEN conjunct2, THEN conjunct2,
                 THEN conjunct1]
  note m7 = main[THEN conjunct2, THEN conjunct2, THEN conjunct2, THEN conjunct2, THEN conjunct2,
                 THEN conjunct2, THEN conjunct1]
  note m8 = main[THEN conjunct2, THEN conjunct2, THEN conjunct2, THEN conjunct2, THEN conjunct2,
                 THEN conjunct2, THEN conjunct2]
  have a: "capacity_row.max_stock (merge_max_stock boundary_df ! 0) = 30"
    using m2[rule_format, OF mem(1)] by (simp only: ev(1))
  have b: "capacity_row.max_stock (merge_max_stock boundary_df ! 1) = 29"
    using m2[rule_format, OF mem(2)] by (simp only: ev(2))
  have c: "mset (map snapshot.truncate (sales boundary_df)) = mset [snap 1 100 0 30 5, snap 1 100 1 20 5]"
    using m4 by (simp only: ev(3))
  have d: "30 \<le> capacity_row.max_stock (sales boundary_df ! 1)"
    using m5[rule_format, OF mem(3)] by (rule conjunct2)
  have e: "30 \<le> agg_row.max_stock (daily_kpi_agg (sales boundary_df) ! 0)"
    using m6[rule_format, OF mem(4)] by (rule conjunct2)
  have f: "30 \<le> agg_row.max_stock (daily_kpi01 (sales boundary_df) ! 0)"
    using m7[rule_format, OF mem(5)] by (rule conjunct2)
  have g: "30 \<le> agg_row.max_stock (snd (snd (daily_kpi02 3 (sales boundary_df))) ! 0)"
    using m8[rule_format, OF mem(6)] by (rule conjunct2)
  show ?thesis using a b c d e f g mem(3,4,5,6) by (intro conjI)
qed

section \<open>The late-booking join\<close>

text \<open>
  Claim C3. In both scripts the frame \<^verbatim>\<open>daily_kpi\<close> has one row for every row of the aggregate with
  \<open>total_sold > 0\<close>, that is, for every retained (listing, stay date) with a sale. For every
  such row \<open>r\<close>: \<open>sold_last_30\<close> is the sum of \<open>sold\<close> over the sale events of \<open>r\<close>'s own group whose
  \<^verbatim>\<open>created_at\<close> is at or after \<open>r\<close>'s stay date minus 30 days, and
  \<open>last_30_days_booking_ratio\<close> is that sum divided by \<open>total_sold\<close>; where the join finds no row
  the sum is 0 and the ratio is 0. When every event of the group that sold something lies in
  the window, the ratio is 1, which meets a threshold of 0.5.
\<close>

theorem late_booking_join:
  "map agg_row.truncate (daily_kpi01 (sales df)) = daily_kpi_sold (sales df) \<and>
   (\<forall>r \<in> set (daily_kpi01 (sales df)).
      0 < total_sold r \<and>
      total_sold r = sum_list (map sold (group_rows stay_of (stay_of r) (sales df))) \<and>
      sold_last_30 r =
        sum_list (map sold (filter (\<lambda>e. date r - Timedelta_days 30 \<le> created_at e)
                              (group_rows stay_of (stay_of r) (sales df)))) \<and>
      last_30_days_booking_ratio r = Fin (of_int (sold_last_30 r) / of_int (total_sold r)) \<and>
      (map_of (sold_last_30_agg (sales df)) (stay_of r) = None \<longrightarrow>
         sold_last_30 r = 0 \<and> last_30_days_booking_ratio r = Fin 0) \<and>
      ((\<forall>e \<in> set (group_rows stay_of (stay_of r) (sales df)).
           0 < sold e \<longrightarrow> date r - Timedelta_days 30 \<le> created_at e) \<longrightarrow>
         last_30_days_booking_ratio r = Fin 1 \<and> fval_ge (last_30_days_booking_ratio r) (Fin (1 / 2)))) \<and>
   map agg_row.truncate (snd (snd (daily_kpi02 num_tiers (sales df)))) = daily_kpi_sold (sales df) \<and>
   (\<forall>r \<in> set (snd (snd (daily_kpi02 num_tiers (sales df)))).
      0 < total_sold r \<and>
      total_sold r = sum_list (map sold (group_rows stay_of (stay_of r) (sales df))) \<and>
      sold_last_30 r =
        sum_list (map sold (filter (\<lambda>e. date r - Timedelta_days 30 \<le> created_at e)
                              (group_rows stay_of (stay_of r) (sales df)))) \<and>
      last_30_days_booking_ratio r = Fin (of_int (sold_last_30 r) / of_int (total_sold r)) \<and>
      (map_of (sold_last_30_agg (sales df)) (stay_of r) = None \<longrightarrow>
         sold_last_30 r = 0 \<and> last_30_days_booking_ratio r = Fin 0) \<and>
      ((\<forall>e \<in> set (group_rows stay_of (stay_of r) (sales df)).
           0 < sold e \<longrightarrow> date r - Timedelta_days 30 \<le> created_at e) \<longrightarrow>
         last_30_days_booking_ratio r = Fin 1 \<and> fval_ge (last_30_days_booking_ratio r) (Fin (1 / 2))))"
proof (intro conjI ballI)
  show "map agg_row.truncate (daily_kpi01 (sales df)) = daily_kpi_sold (sales df)"
    by (rule map_truncate_daily_kpi01)
  show "map agg_row.truncate (snd (snd (daily_kpi02 num_tiers (sales df)))) = daily_kpi_sold (sales df)"
    by (rule map_truncate_daily_kpi02)
next
  fix r assume r: "r \<in> set (daily_kpi01 (sales df))"
  note h = late_ratio_generic[OF daily_kpi01_row(1)[OF r] daily_kpi01_row(3)[OF r] daily_kpi01_row(4)[OF r]]
  show "0 < total_sold r"
    and "total_sold r = sum_list (map sold (group_rows stay_of (stay_of r) (sales df)))"
    and "sold_last_30 r =
        sum_list (map sold (filter (\<lambda>e. date r - Timedelta_days 30 \<le> created_at e)
                              (group_rows stay_of (stay_of r) (sales df))))"
    and "last_30_days_booking_ratio r = Fin (of_int (sold_last_30 r) / of_int (total_sold r))"
    and "map_of (sold_last_30_agg (sales df)) (stay_of r) = None \<longrightarrow>
         sold_last_30 r = 0 \<and> last_30_days_booking_ratio r = Fin 0"
    and "(\<forall>e \<in> set (group_rows stay_of (stay_of r) (sales df)).
           0 < sold e \<longrightarrow> date r - Timedelta_days 30 \<le> created_at e) \<longrightarrow>
         last_30_days_booking_ratio r = Fin 1 \<and> fval_ge (last_30_days_booking_ratio r) (Fin (1 / 2))"
    using h by blast+
next
  fix r assume r: "r \<in> set (snd (snd (daily_kpi02 num_tiers (sales df))))"
  note h = late_ratio_generic[OF daily_kpi02_row(1)[OF r] daily_kpi02_row(3)[OF r] daily_kpi02_row(4)[OF r]]
  show "0 < total_sold r"
    and "total_sold r = sum_list (map sold (group_rows stay_of (stay_of r) (sales df)))"
    and "sold_last_30 r =
        sum_list (map sold (filter (\<lambda>e. date r - Timedelta_days 30 \<le> created_at e)
                              (group_rows stay_of (stay_of r) (sales df))))"
    and "last_30_days_booking_ratio r = Fin (of_int (sold_last_30 r) / of_int (total_sold r))"
    and "map_of (sold_last_30_agg (sales df)) (stay_of r) = None \<longrightarrow>
         sold_last_30 r = 0 \<and> last_30_days_booking_ratio r = Fin 0"
    and "(\<forall>e \<in> set (group_rows stay_of (stay_of r) (sales df)).
           0 < sold e \<longrightarrow> date r - Timedelta_days 30 \<le> created_at e) \<longrightarrow>
         last_30_days_booking_ratio r = Fin 1 \<and> fval_ge (last_30_days_booking_ratio r) (Fin (1 / 2))"
    using h by blast+
qed

theorem late_booking_join_witness:
  "daily_kpi01 (sales pace_df) ! 1 \<in> set (daily_kpi01 (sales pace_df)) \<and>
   total_sold (daily_kpi01 (sales pace_df) ! 1) = 20 \<and>
   last_30_days_booking_ratio (daily_kpi01 (sales pace_df) ! 1) = Fin 1 \<and>
   fval_ge (last_30_days_booking_ratio (daily_kpi01 (sales pace_df) ! 1)) (Fin (1 / 2)) \<and>
   daily_kpi01 (sales pace_df) ! 2 \<in> set (daily_kpi01 (sales pace_df)) \<and>
   map_of (sold_last_30_agg (sales pace_df)) (stay_of (daily_kpi01 (sales pace_df) ! 2)) = None \<and>
   last_30_days_booking_ratio (daily_kpi01 (sales pace_df) ! 2) = Fin 0 \<and>
   snd (snd (daily_kpi02 3 (sales pace_df))) ! 0 \<in> set (snd (snd (daily_kpi02 3 (sales pace_df)))) \<and>
   last_30_days_booking_ratio (snd (snd (daily_kpi02 3 (sales pace_df))) ! 0) = Fin (1 / 4)"
proof -
  note main = late_booking_join[of pace_df 3]
  note m1 = main[THEN conjunct2, THEN conjunct1, rule_format]
  note m2 = main[THEN conjunct2, THEN conjunct2, THEN conjunct2, rule_format]
  let ?r1 = "daily_kpi01 (sales pace_df) ! 1"
  let ?r2 = "daily_kpi01 (sales pace_df) ! 2"
  let ?r3 = "snd (snd (daily_kpi02 3 (sales pace_df))) ! 0"
  have mem: "?r1 \<in> set (daily_kpi01 (sales pace_df))" "?r2 \<in> set (daily_kpi01 (sales pace_df))"
    "?r3 \<in> set (snd (snd (daily_kpi02 3 (sales pace_df))))"
    by code_simp+
  have window: "\<forall>e \<in> set (group_rows stay_of (stay_of ?r1) (sales pace_df)).
           0 < sold e \<longrightarrow> date ?r1 - Timedelta_days 30 \<le> created_at e"
    by code_simp
  have none: "map_of (sold_last_30_agg (sales pace_df)) (stay_of ?r2) = None"
    by code_simp
  have ev: "sum_list (map sold (group_rows stay_of (stay_of ?r1) (sales pace_df))) = 20"
    "sold_last_30 ?r3 = 5" "total_sold ?r3 = 20"
    by code_simp+
  have a: "total_sold ?r1 = 20"
    using m1[OF mem(1)] by (simp only: ev(1))
  have b: "last_30_days_booking_ratio ?r1 = Fin 1 \<and> fval_ge (last_30_days_booking_ratio ?r1) (Fin (1 / 2))"
    using m1[OF mem(1)] window by blast
  have c: "last_30_days_booking_ratio ?r2 = Fin 0"
    using m1[OF mem(2)] none by blast
  have "last_30_days_booking_ratio ?r3 = Fin (of_int (sold_last_30 ?r3) / of_int (total_sold ?r3))"
    using m2[OF mem(3)] by blast
  then have d: "last_30_days_booking_ratio ?r3 = Fin (1 / 4)"
    by (simp add: ev)
  show ?thesis using mem none a b c d by (intro conjI) blast+
qed

section \<open>The early-booking join\<close>

text \<open>
  Claim C5. In the global-best script, for every row \<open>r\<close> of \<^verbatim>\<open>daily_kpi\<close> (one for every retained
  listing and stay date with a sale): \<open>sold_before_120\<close> is the sum of \<open>sold\<close> over the sale events
  of \<open>r\<close>'s own group whose \<^verbatim>\<open>created_at\<close> is strictly before \<open>r\<close>'s own stay date minus 120 days,
  \<open>booking_rate_at_120_days\<close> is that sum divided by the listing's \<open>max_stock\<close>, and where the
  join finds no row the sum and the rate are 0.
\<close>

theorem early_booking_join:
  "map agg_row.truncate (daily_kpi01 (sales df)) = daily_kpi_sold (sales df) \<and>
   (\<forall>r \<in> set (daily_kpi01 (sales df)).
      sold_before_120 r =
        sum_list (map sold (filter (\<lambda>e. created_at e < date r - Timedelta_days 120)
                              (group_rows stay_of (stay_of r) (sales df)))) \<and>
      agg_row.max_stock r = Max (stock ` {s \<in> set df. listing_of s = listing_of r}) \<and>
      booking_rate_at_120_days r = Fin (of_int (sold_before_120 r) / of_int (agg_row.max_stock r)) \<and>
      (map_of (sold_before_120_agg (sales df)) (stay_of r) = None \<longrightarrow>
         sold_before_120 r = 0 \<and> booking_rate_at_120_days r = Fin 0))"
proof (intro conjI ballI)
  show "map agg_row.truncate (daily_kpi01 (sales df)) = daily_kpi_sold (sales df)"
    by (rule map_truncate_daily_kpi01)
next
  fix r assume r: "r \<in> set (daily_kpi01 (sales df))"
  note f = kpi_row_facts[OF daily_kpi01_row(1)[OF r]]
  show early: "sold_before_120 r =
        sum_list (map sold (filter (\<lambda>e. created_at e < date r - Timedelta_days 120)
                              (group_rows stay_of (stay_of r) (sales df))))"
    unfolding daily_kpi01_row(5)[OF r] sold_before_120_value
    using group_filter_date[of "\<lambda>d e. created_at e < d - Timedelta_days 120" r "sales df"] by simp
  show "agg_row.max_stock r = Max (stock ` {s \<in> set df. listing_of s = listing_of r})"
    by (rule f(5))
  show rate: "booking_rate_at_120_days r = Fin (of_int (sold_before_120 r) / of_int (agg_row.max_stock r))"
    unfolding daily_kpi01_row(6)[OF r] using f(4) by (simp add: ratio_Fin)
  show "map_of (sold_before_120_agg (sales df)) (stay_of r) = None \<longrightarrow>
         sold_before_120 r = 0 \<and> booking_rate_at_120_days r = Fin 0"
  proof
    assume "map_of (sold_before_120_agg (sales df)) (stay_of r) = None"
    then have "sold_before_120 r = 0"
      by (simp add: daily_kpi01_row(5)[OF r] merge_left_fillna_def)
    then show "sold_before_120 r = 0 \<and> booking_rate_at_120_days r = Fin 0"
      using rate by simp
  qed
qed

theorem early_booking_join_witness:
  "daily_kpi01 (sales pace_df) ! 0 \<in> set (daily_kpi01 (sales pace_df)) \<and>
   sold_before_120 (daily_kpi01 (sales pace_df) ! 0) = 10 \<and>
   booking_rate_at_120_days (daily_kpi01 (sales pace_df) ! 0) = Fin (1 / 4) \<and>
   daily_kpi01 (sales pace_df) ! 1 \<in> set (daily_kpi01 (sales pace_df)) \<and>
   map_of (sold_before_120_agg (sales pace_df)) (stay_of (daily_kpi01 (sales pace_df) ! 1)) = None \<and>
   booking_rate_at_120_days (daily_kpi01 (sales pace_df) ! 1) = Fin 0"
proof -
  note m = early_booking_join[of pace_df, THEN conjunct2, rule_format]
  let ?r0 = "daily_kpi01 (sales pace_df) ! 0"
  let ?r1 = "daily_kpi01 (sales pace_df) ! 1"
  have mem: "?r0 \<in> set (daily_kpi01 (sales pace_df))" "?r1 \<in> set (daily_kpi01 (sales pace_df))"
    by code_simp+
  have none: "map_of (sold_before_120_agg (sales pace_df)) (stay_of ?r1) = None"
    by code_simp
  have ev: "sum_list (map sold (filter (\<lambda>e. created_at e < date ?r0 - Timedelta_days 120)
                              (group_rows stay_of (stay_of ?r0) (sales pace_df)))) = 10"
    "Max (stock ` {s \<in> set pace_df. listing_of s = listing_of ?r0}) = 40"
    by code_simp+
  have a: "sold_before_120 ?r0 = 10"
    using m[OF mem(1)] by (simp only: ev(1))
  have ms: "agg_row.max_stock ?r0 = 40"
    using m[OF mem(1)] by (simp only: ev(2))
  have "booking_rate_at_120_days ?r0 = Fin (of_int (sold_before_120 ?r0) / of_int (agg_row.max_stock ?r0))"
    using m[OF mem(1)] by blast
  then have b: "booking_rate_at_120_days ?r0 = Fin (1 / 4)"
    by (simp add: a ms)
  have c: "booking_rate_at_120_days ?r1 = Fin 0"
    using m[OF mem(2)] none by blast
  show ?thesis using mem none a b c by (intro conjI)
qed

section \<open>Rows with faulty dates\<close>

text \<open>
  Claim C6, amended. For every table in which no cell of \<^verbatim>\<open>date\<close> or \<^verbatim>\<open>created_at\<close> is a text that is
  no date: loading does not fail, it keeps exactly the rows without an empty cell, so every
  row with an empty \<^verbatim>\<open>date\<close> or \<^verbatim>\<open>created_at\<close> is dropped without a message; and the output of both
  scripts is the same as on the table with those rows removed beforehand.
\<close>

theorem missing_rows_dropped:
  assumes "Unparseable \<notin> raw_date ` set rows" and "Unparseable \<notin> raw_created_at ` set rows"
  shows "load (Csv rows) = Inr (dropna rows) \<and>
         (\<forall>s \<in> set (dropna rows). \<exists>r \<in> set rows.
            raw_date r = Stamp (date s) \<and> raw_created_at r = Stamp (created_at s)) \<and>
         load (Csv (filter (\<lambda>r. raw_date r \<noteq> Missing \<and> raw_created_at r \<noteq> Missing) rows))
           = load (Csv rows) \<and>
         analyze_and_plot_optimal_booking_curves srt1
             (Csv (filter (\<lambda>r. raw_date r \<noteq> Missing \<and> raw_created_at r \<noteq> Missing) rows)) threshold
           = analyze_and_plot_optimal_booking_curves srt1 (Csv rows) threshold \<and>
         analyze_and_plot_peer_group_champions srt2 observed
             (Csv (filter (\<lambda>r. raw_date r \<noteq> Missing \<and> raw_created_at r \<noteq> Missing) rows)) threshold num_tiers
           = analyze_and_plot_peer_group_champions srt2 observed (Csv rows) threshold num_tiers"
proof -
  let ?kept = "filter (\<lambda>r. raw_date r \<noteq> Missing \<and> raw_created_at r \<noteq> Missing) rows"
  have 1: "load (Csv rows) = Inr (dropna rows)"
    by (rule load_parseable[OF assms])
  have 2: "\<forall>s \<in> set (dropna rows). \<exists>r \<in> set rows.
            raw_date r = Stamp (date s) \<and> raw_created_at r = Stamp (created_at s)"
  proof
    fix s assume "s \<in> set (dropna rows)"
    then obtain r where r: "r \<in> set rows" "complete_row r = Some s"
      unfolding dropna_def set_map_filter by blast
    from complete_row_Some[OF r(2)] r(1)
    show "\<exists>r \<in> set rows. raw_date r = Stamp (date s) \<and> raw_created_at r = Stamp (created_at s)"
      by blast
  qed
  have "load (Csv ?kept) = Inr (dropna ?kept)"
    by (rule load_parseable) (use assms in auto)
  also have "dropna ?kept = dropna rows"
    by (rule dropna_filter) (use complete_row_missing in blast)
  finally have 3: "load (Csv ?kept) = load (Csv rows)"
    by (simp add: 1)
  show ?thesis
    using 1 2 3
    by (simp add: analyze_and_plot_optimal_booking_curves_def analyze_and_plot_peer_group_champions_def)
qed

theorem missing_rows_dropped_witness:
  "Unparseable \<notin> raw_date ` set missing_raw \<and> Unparseable \<notin> raw_created_at ` set missing_raw \<and>
   filter (\<lambda>r. raw_date r \<noteq> Missing \<and> raw_created_at r \<noteq> Missing) missing_raw = clean_raw \<and>
   load (Csv missing_raw) = Inr [snap 1 100 0 40 5, snap 1 100 1 20 5] \<and>
   load (Csv clean_raw) = load (Csv missing_raw) \<and>
   analyze_and_plot_optimal_booking_curves (sort_values_stable RevPAR) (Csv clean_raw) (1 / 2)
     = analyze_and_plot_optimal_booking_curves (sort_values_stable RevPAR) (Csv missing_raw) (1 / 2)"
proof -
  have h: "Unparseable \<notin> raw_date ` set missing_raw" "Unparseable \<notin> raw_created_at ` set missing_raw"
    by code_simp+
  have f: "filter (\<lambda>r. raw_date r \<noteq> Missing \<and> raw_created_at r \<noteq> Missing) missing_raw = clean_raw"
    by code_simp
  have d: "dropna missing_raw = [snap 1 100 0 40 5, snap 1 100 1 20 5]"
    by code_simp
  note main = missing_rows_dropped[OF h, of "sort_values_stable RevPAR" "1 / 2", unfolded f d]
  show ?thesis using h f main by blast
qed

text \<open>
  The claim as stated also covers dates that cannot be parsed. Those are not dropped:
  \<^verbatim>\<open>pd.to_datetime\<close> raises on the first of them, the scripts catch FileNotFoundError only, and the
  run ends with the error, while the same table without the row runs to its end.
\<close>

theorem unparseable_date_aborts:
  "load (Csv unparseable_raw) = Inl ValueError \<and>
   load (Csv (filter (\<lambda>r. raw_date r \<noteq> Unparseable \<and> raw_created_at r \<noteq> Unparseable) unparseable_raw))
     = Inr [snap 1 100 0 40 5, snap 1 100 1 20 5] \<and>
   analyze_and_plot_optimal_booking_curves (sort_values_stable RevPAR) (Csv unparseable_raw) (1 / 2)
     = Inl ValueError \<and>
   analyze_and_plot_optimal_booking_curves (sort_values_stable RevPAR)
     (Csv (filter (\<lambda>r. raw_date r \<noteq> Unparseable \<and> raw_created_at r \<noteq> Unparseable) unparseable_raw)) (1 / 2)
     \<noteq> Inl ValueError"
  by code_simp

section \<open>Degenerate segmentation\<close>

text \<open>
  Claim C7, amended. In the peer-group script with \<open>num_tiers\<close> 2 or 3, for every table that
  loads: whenever the quantile edges of the characteristic prices of the rows of \<^verbatim>\<open>daily_kpi\<close>
  are not all distinct, the warning is printed, \<^verbatim>\<open>price_tier\<close> is the plain column holding the
  single-group label in every row, and the run goes on to its end, with exemplars of that one
  tier only. In particular, with \<open>num_tiers = 3\<close>, at least three rows in \<^verbatim>\<open>daily_kpi\<close> and exactly
  two distinct characteristic prices, the edges are not all distinct and exactly one tier value
  exists across all rows.
\<close>

theorem degenerate_segmentation:
  fixes df :: "snapshot list" and num_tiers :: nat
  defines "kpi \<equiv> snd (snd (daily_kpi02 num_tiers (sales df)))"
  assumes nt: "2 \<le> num_tiers" "num_tiers \<le> 3"
    and srt: "sorts_descending RevPAR srt"
    and ld: "load csv_path = Inr df"
  shows "(\<not> distinct (quantile_edges (map characteristic_price kpi) num_tiers) \<longrightarrow>
           fst (daily_kpi02 num_tiers (sales df)) \<and>
           fst (snd (daily_kpi02 num_tiers (sales df))) = None \<and>
           (\<forall>r \<in> set kpi. price_tier r = Some Single_group) \<and>
           (\<exists>best. analyze_and_plot_peer_group_champions srt observed csv_path threshold num_tiers
                      = Inr (True, best) \<and>
                    (\<forall>g \<in> set best. fst g = Single_group \<and> snd g \<noteq> None))) \<and>
         (num_tiers = 3 \<and> 3 \<le> length kpi \<and>
          (\<exists>a b. a \<noteq> b \<and> set (map characteristic_price kpi) = {Fin a, Fin b}) \<longrightarrow>
            \<not> distinct (quantile_edges (map characteristic_price kpi) num_tiers) \<and>
            price_tier ` set kpi = {Some Single_group})"
proof -
  let ?cps = "map snd (merge_characteristic_price (daily_kpi_sold (sales df)))"
  have cps: "map characteristic_price kpi = ?cps"
    unfolding kpi_def by (rule characteristic_price_column)
  have fallback: "fst (daily_kpi02 num_tiers (sales df)) \<and>
           fst (snd (daily_kpi02 num_tiers (sales df))) = None \<and>
           (\<forall>r \<in> set kpi. price_tier r = Some Single_group) \<and>
           (\<exists>best. analyze_and_plot_peer_group_champions srt observed csv_path threshold num_tiers
                      = Inr (True, best) \<and>
                    (\<forall>g \<in> set best. fst g = Single_group \<and> snd g \<noteq> None))"
    if dup: "\<not> distinct (quantile_edges (map characteristic_price kpi) num_tiers)"
  proof -
    from dup have "\<not> distinct (quantile_edges ?cps num_tiers)" by (simp add: cps)
    from price_tier_column_fallback[OF nt this]
    have p: "price_tier_column num_tiers ?cps = (True, None, map (\<lambda>_. Some Single_group) ?cps)" .
    note c = daily_kpi02_columns[OF p]
    have w: "fst (daily_kpi02 num_tiers (sales df))" using c(1) by simp
    have n: "fst (snd (daily_kpi02 num_tiers (sales df))) = None" by (rule c(2))
    have t: "\<forall>r \<in> set kpi. price_tier r = Some Single_group"
    proof
      fix r assume "r \<in> set kpi"
      then have "price_tier r \<in> set (map price_tier kpi)" by simp
      also have "map price_tier kpi = map (\<lambda>_. Some Single_group) ?cps"
        unfolding kpi_def by (rule c(3))
      finally show "price_tier r = Some Single_group" by auto
    qed
    define best where "best = best_dates02 srt observed threshold None kpi"
    have dk: "daily_kpi02 num_tiers (sales df) = (True, None, kpi)"
      using w n by (simp add: kpi_def prod_eq_iff)
    have b: "fst g = Single_group \<and> snd g \<noteq> None" if g: "g \<in> set best" for g
    proof -
      from g have g': "g \<in> set (groupby_tier_first observed None (srt (last_minute_cases threshold kpi)))"
        by (simp add: best_def best_dates02_def)
      from groupby_tier_first_plain(2)[OF g'] obtain r where
        r: "r \<in> set (srt (last_minute_cases threshold kpi))" "price_tier r = Some (fst g)" by blast
      from r(1) have "r \<in> set kpi"
        by (simp add: sorts_descending_set[OF srt] last_minute_cases_def)
      with t r(2) have "fst g = Single_group" by auto
      with groupby_tier_first_plain(1)[OF g'] show ?thesis by simp
    qed
    then have "list_all (\<lambda>g. capacity_label (snd g) \<noteq> Inl ValueError) best"
      by (auto simp: list_all_iff capacity_label_def split: option.splits)
    then have "analyze_and_plot_peer_group_champions srt observed csv_path threshold num_tiers = Inr (True, best)"
      by (simp add: analyze_and_plot_peer_group_champions_def ld dk best_def)
    with b w n t show ?thesis by blast
  qed
  have scenario: "\<not> distinct (quantile_edges (map characteristic_price kpi) num_tiers) \<and>
            price_tier ` set kpi = {Some Single_group}"
    if h: "num_tiers = 3 \<and> 3 \<le> length kpi \<and>
          (\<exists>a b. a \<noteq> b \<and> set (map characteristic_price kpi) = {Fin a, Fin b})"
  proof -
    from h obtain a b where ab: "a \<noteq> b" "set (map characteristic_price kpi) = {Fin a, Fin b}" by blast
    from h have len: "3 \<le> length (map characteristic_price kpi)" by simp
    have dup: "\<not> distinct (quantile_edges (map characteristic_price kpi) num_tiers)"
      using two_prices_duplicate_edges[OF ab(2) ab(1) len] h by simp
    from fallback[OF dup] have t: "\<forall>r \<in> set kpi. price_tier r = Some Single_group" by blast
    from h have "kpi \<noteq> []" by auto
    with t have "price_tier ` set kpi = {Some Single_group}" by (cases kpi) auto
    with dup show ?thesis by blast
  qed
  from fallback scenario show ?thesis by blast
qed

theorem degenerate_segmentation_witness:
  "load (Csv three_row_raw) = Inr (dropna three_row_raw) \<and>
   map characteristic_price (snd (snd (daily_kpi02 3 (sales (dropna three_row_raw))))) = [Fin 5, Fin 8, Fin 8] \<and>
   \<not> distinct (quantile_edges (map characteristic_price (snd (snd (daily_kpi02 3 (sales (dropna three_row_raw)))))) 3) \<and>
   fst (daily_kpi02 3 (sales (dropna three_row_raw))) \<and>
   price_tier ` set (snd (snd (daily_kpi02 3 (sales (dropna three_row_raw))))) = {Some Single_group} \<and>
   (\<exists>best. analyze_and_plot_peer_group_champions (sort_values_stable RevPAR) False (Csv three_row_raw) (1 / 2) 3
              = Inr (True, best))"
proof -
  let ?kpi = "snd (snd (daily_kpi02 3 (sales (dropna three_row_raw))))"
  have ld: "load (Csv three_row_raw) = Inr (dropna three_row_raw)"
    by code_simp
  have cps: "map characteristic_price ?kpi = [Fin 5, Fin 8, Fin 8]"
    by code_simp
  have len: "3 \<le> length ?kpi"
    by code_simp
  have "(5::rat) \<noteq> 8 \<and> set (map characteristic_price ?kpi) = {Fin 5, Fin 8}"
    unfolding cps by auto
  then have two: "\<exists>a b. a \<noteq> b \<and> set (map characteristic_price ?kpi) = {Fin a, Fin b}"
    by blast
  note main = degenerate_segmentation[where num_tiers = 3 and srt = "sort_values_stable RevPAR"
      and csv_path = "Csv three_row_raw" and df = "dropna three_row_raw" and observed = False
      and threshold = "1 / 2", OF _ _ sorts_descending_stable ld]
  have main': "(\<not> distinct (quantile_edges (map characteristic_price ?kpi) 3) \<longrightarrow>
           fst (daily_kpi02 3 (sales (dropna three_row_raw))) \<and>
           fst (snd (daily_kpi02 3 (sales (dropna three_row_raw)))) = None \<and>
           (\<forall>r \<in> set ?kpi. price_tier r = Some Single_group) \<and>
           (\<exists>best. analyze_and_plot_peer_group_champions (sort_values_stable RevPAR) False (Csv three_row_raw) (1 / 2) 3
                      = Inr (True, best) \<and>
                    (\<forall>g \<in> set best. fst g = Single_group \<and> snd g \<noteq> None))) \<and>
         ((3::nat) = 3 \<and> 3 \<le> length ?kpi \<and>
          (\<exists>a b. a \<noteq> b \<and> set (map characteristic_price ?kpi) = {Fin a, Fin b}) \<longrightarrow>
            \<not> distinct (quantile_edges (map characteristic_price ?kpi) 3) \<and>
            price_tier ` set ?kpi = {Some Single_group})"
    by (rule main) simp_all
  from main' len two have a: "\<not> distinct (quantile_edges (map characteristic_price ?kpi) 3)"
    and b: "price_tier ` set ?kpi = {Some Single_group}" by blast+
  from main' a have c: "fst (daily_kpi02 3 (sales (dropna three_row_raw)))"
    and d: "\<exists>best. analyze_and_plot_peer_group_champions (sort_values_stable RevPAR) False (Csv three_row_raw) (1 / 2) 3
              = Inr (True, best)" by blast+
  show ?thesis using ld cps a b c d by (intro conjI)
qed

text \<open>
  What the claim says beyond that does not hold. With \<open>num_tiers = 3\<close> and two rows whose
  characteristic prices differ, the interpolated edges 5, 6, 7, 8 are distinct, no warning is
  printed and the rows get two tiers. With \<open>num_tiers = 4\<close> the script still passes three labels,
  so one repeated edge leaves four edges for three labels, and three tiers are assigned without
  a warning. With \<open>num_tiers = 1\<close> the two edges are never dropped, and rows of one price get the
  lowest tier without a warning.
\<close>

theorem two_rows_two_tiers:
  "map characteristic_price (snd (snd (daily_kpi02 3 (sales (dropna two_listing_raw))))) = [Fin 5, Fin 8] \<and>
   quantile_edges [Fin 5, Fin 8] 3 = [Fin 5, Fin 6, Fin 7, Fin 8] \<and>
   \<not> fst (daily_kpi02 3 (sales (dropna two_listing_raw))) \<and>
   map price_tier (snd (snd (daily_kpi02 3 (sales (dropna two_listing_raw)))))
     = [Some Ume_low, Some Matsu_high] \<and>
   analyze_and_plot_peer_group_champions (sort_values_stable RevPAR) True (Csv two_listing_raw) (1 / 2) 3
     = Inr (False, [(Ume_low, Some (snd (snd (daily_kpi02 3 (sales (dropna two_listing_raw)))) ! 0)),
                    (Matsu_high, Some (snd (snd (daily_kpi02 3 (sales (dropna two_listing_raw)))) ! 1))]) \<and>
   \<not> distinct (quantile_edges (map characteristic_price (snd (snd (daily_kpi02 4 (sales five_listing_df))))) 4) \<and>
   \<not> fst (daily_kpi02 4 (sales five_listing_df)) \<and>
   map price_tier (snd (snd (daily_kpi02 4 (sales five_listing_df))))
     = [Some Ume_low, Some Ume_low, Some Ume_low, Some Take_mid, Some Matsu_high] \<and>
   \<not> distinct (quantile_edges (map characteristic_price (snd (snd (daily_kpi02 1 (sales pace_df))))) 1) \<and>
   \<not> fst (daily_kpi02 1 (sales pace_df)) \<and>
   map price_tier (snd (snd (daily_kpi02 1 (sales pace_df)))) = [Some Ume_low, Some Ume_low, Some Ume_low]"
  by code_simp

section \<open>Tiers without a qualifying row\<close>

text \<open>
  Claim C8 says that a price tier in which no row of \<^verbatim>\<open>daily_kpi\<close> meets the threshold is absent
  from \<^verbatim>\<open>best_dates\<close> and causes no error. With the default \<^verbatim>\<open>observed=False\<close> of pandas up to
  version 2, the version whose in-place \<^verbatim>\<open>fillna\<close> on a selected column the scripts rely on,
  the grouping on the categorical \<^verbatim>\<open>price_tier\<close> lists every label: in the example the middle
  tier has one row, which misses the threshold, \<^verbatim>\<open>best_dates\<close> holds a row of NaN for it, and the
  drawing loop raises ValueError on that row. With \<^verbatim>\<open>observed=True\<close> the same input gives the two
  exemplars and no error.
\<close>

theorem empty_tier_row:
  "map price_tier (snd (snd (daily_kpi02 3 (sales (dropna empty_tier_raw)))))
     = [Some Ume_low, Some Take_mid, Some Matsu_high] \<and>
   map (\<lambda>r. fval_ge (last_30_days_booking_ratio r) (Fin (1 / 2)))
       (snd (snd (daily_kpi02 3 (sales (dropna empty_tier_raw))))) = [True, False, True] \<and>
   best_dates02 (sort_values_stable RevPAR) False (1 / 2)
       (fst (snd (daily_kpi02 3 (sales (dropna empty_tier_raw)))))
       (snd (snd (daily_kpi02 3 (sales (dropna empty_tier_raw)))))
     = [(Ume_low, Some (snd (snd (daily_kpi02 3 (sales (dropna empty_tier_raw)))) ! 0)),
        (Take_mid, None),
        (Matsu_high, Some (snd (snd (daily_kpi02 3 (sales (dropna empty_tier_raw)))) ! 2))] \<and>
   analyze_and_plot_peer_group_champions (sort_values_stable RevPAR) False (Csv empty_tier_raw) (1 / 2) 3
     = Inl ValueError \<and>
   analyze_and_plot_peer_group_champions (sort_values_stable RevPAR) True (Csv empty_tier_raw) (1 / 2) 3
     = Inr (False, [(Ume_low, Some (snd (snd (daily_kpi02 3 (sales (dropna empty_tier_raw)))) ! 0)),
                    (Matsu_high, Some (snd (snd (daily_kpi02 3 (sales (dropna empty_tier_raw)))) ! 2))])"
  by code_simp

text \<open>
  What holds of \<^verbatim>\<open>best_dates\<close> in the peer-group script for either default, with \<open>num_tiers\<close> at
  least 1 and a sort that returns a descending order: it has at most \<open>num_tiers\<close> rows; with
  \<^verbatim>\<open>observed=True\<close>, and in the fall-back to a single group, every row is a row of \<^verbatim>\<open>daily_kpi\<close> of
  its tier that meets the threshold, so a tier without such a row is absent; with
  \<^verbatim>\<open>observed=False\<close> and a categorical \<^verbatim>\<open>price_tier\<close> it has one row for every label.
\<close>

theorem exemplars_per_tier:
  fixes df :: "snapshot list" and num_tiers :: nat
  defines "kpi \<equiv> snd (snd (daily_kpi02 num_tiers (sales df)))"
    and "cats \<equiv> fst (snd (daily_kpi02 num_tiers (sales df)))"
  assumes s: "sorts_descending RevPAR srt" and nt: "1 \<le> num_tiers"
  shows "length (best_dates02 srt observed threshold cats kpi) \<le> num_tiers \<and>
         (observed \<or> cats = None \<longrightarrow>
            (\<forall>g \<in> set (best_dates02 srt observed threshold cats kpi).
               \<exists>e. snd g = Some e \<and> e \<in> set kpi \<and> price_tier e = Some (fst g) \<and>
                   fval_ge (last_30_days_booking_ratio e) (Fin threshold))) \<and>
         (\<forall>cs. \<not> observed \<and> cats = Some cs \<longrightarrow>
            map fst (best_dates02 srt observed threshold cats kpi) = cs)"
proof -
  let ?ys = "srt (last_minute_cases threshold kpi)"
  have sub: "set ?ys \<subseteq> set kpi"
    by (auto simp: sorts_descending_set[OF s] last_minute_cases_def)
  have q: "fval_ge (last_30_days_booking_ratio e) (Fin threshold)" if "e \<in> set ?ys" for e
    using that by (simp add: sorts_descending_set[OF s] last_minute_cases_def)
  have len: "length (best_dates02 srt observed threshold cats kpi) \<le> num_tiers"
  proof (cases cats)
    case None
    then have "\<forall>r \<in> set kpi. price_tier r = Some Single_group"
      using daily_kpi02_plain[of num_tiers "sales df"] by (simp add: cats_def kpi_def)
    with sub have "\<forall>x \<in> set (List.map_filter price_tier ?ys). x = Single_group"
      by (auto simp: set_map_filter)
    from length_remdups_single[OF this] nt None show ?thesis
      by (simp add: best_dates02_def groupby_tier_first_def)
  next
    case (Some cs)
    then have "length cs \<le> num_tiers"
      using daily_kpi02_length_cats[of num_tiers "sales df" cs] by (simp add: cats_def)
    then have "length (filter P cs) \<le> num_tiers" for P
      using le_trans[OF length_filter_le] by blast
    with \<open>length cs \<le> num_tiers\<close> show ?thesis
      using Some by (cases observed) (simp_all add: best_dates02_def groupby_tier_first_def)
  qed
  have obs: "\<exists>e. snd g = Some e \<and> e \<in> set kpi \<and> price_tier e = Some (fst g) \<and>
                   fval_ge (last_30_days_booking_ratio e) (Fin threshold)"
    if o: "observed \<or> cats = None" and g: "g \<in> set (best_dates02 srt observed threshold cats kpi)" for g
  proof -
    have "\<exists>r \<in> set ?ys. price_tier r = Some (fst g)"
    proof (cases cats)
      case None
      with g groupby_tier_first_plain(2)[of g observed ?ys] show ?thesis
        by (simp add: best_dates02_def)
    next
      case (Some cs)
      with o have observed by simp
      with g Some show ?thesis
        by (auto simp: best_dates02_def groupby_tier_first_def)
    qed
    then obtain e where e: "find (\<lambda>r. price_tier r = Some (fst g)) ?ys = Some e"
      by (cases "find (\<lambda>r. price_tier r = Some (fst g)) ?ys") (auto simp: find_None_iff)
    have "snd g = find (\<lambda>r. price_tier r = Some (fst g)) ?ys"
      using groupby_tier_first_entry[of "fst g" "snd g" observed cats ?ys] g
      by (simp add: best_dates02_def)
    with e have sg: "snd g = Some e" by simp
    from e have "e \<in> set ?ys" "price_tier e = Some (fst g)" by (auto simp: find_Some_iff)
    with sub q sg show ?thesis by blast
  qed
  have all: "map fst (best_dates02 srt observed threshold cats kpi) = cs" if "\<not> observed \<and> cats = Some cs" for cs
    using that by (simp add: best_dates02_def groupby_tier_first_def o_def)
  from len obs all show ?thesis by blast
qed

theorem exemplars_per_tier_witness:
  "sorts_descending RevPAR (sort_values_stable (RevPAR :: kpi02_row \<Rightarrow> fval)) \<and>
   length (best_dates02 (sort_values_stable RevPAR) True (1 / 2)
             (fst (snd (daily_kpi02 3 (sales (dropna empty_tier_raw)))))
             (snd (snd (daily_kpi02 3 (sales (dropna empty_tier_raw)))))) \<le> 3 \<and>
   (Ume_low, Some (snd (snd (daily_kpi02 3 (sales (dropna empty_tier_raw)))) ! 0))
     \<in> set (best_dates02 (sort_values_stable RevPAR) True (1 / 2)
             (fst (snd (daily_kpi02 3 (sales (dropna empty_tier_raw)))))
             (snd (snd (daily_kpi02 3 (sales (dropna empty_tier_raw)))))) \<and>
   fval_ge (last_30_days_booking_ratio (snd (snd (daily_kpi02 3 (sales (dropna empty_tier_raw)))) ! 0))
           (Fin (1 / 2)) \<and>
   fst (snd (daily_kpi02 3 (sales (dropna empty_tier_raw)))) = Some [Ume_low, Take_mid, Matsu_high] \<and>
   map fst (best_dates02 (sort_values_stable RevPAR) False (1 / 2)
             (fst (snd (daily_kpi02 3 (sales (dropna empty_tier_raw)))))
             (snd (snd (daily_kpi02 3 (sales (dropna empty_tier_raw))))))
     = [Ume_low, Take_mid, Matsu_high]"
proof -
  let ?kpi = "snd (snd (daily_kpi02 3 (sales (dropna empty_tier_raw))))"
  let ?cats = "fst (snd (daily_kpi02 3 (sales (dropna empty_tier_raw))))"
  have s: "sorts_descending RevPAR (sort_values_stable (RevPAR :: kpi02_row \<Rightarrow> fval))"
    by (rule sorts_descending_stable)
  note t = exemplars_per_tier[OF s, of 3 True "1 / 2" "dropna empty_tier_raw"]
  note f = exemplars_per_tier[OF s, of 3 False "1 / 2" "dropna empty_tier_raw"]
  have one: "(1::nat) \<le> 3" by simp
  have mem: "(Ume_low, Some (?kpi ! 0)) \<in> set (best_dates02 (sort_values_stable RevPAR) True (1 / 2) ?cats ?kpi)"
    by code_simp
  have cats: "?cats = Some [Ume_low, Take_mid, Matsu_high]"
    by code_simp
  from t[OF one] have a: "length (best_dates02 (sort_values_stable RevPAR) True (1 / 2) ?cats ?kpi) \<le> 3"
    by (rule conjunct1)
  from t[OF one, THEN conjunct2, THEN conjunct1] mem
  have "\<exists>e. snd (Ume_low, Some (?kpi ! 0)) = Some e \<and> e \<in> set ?kpi \<and>
            price_tier e = Some (fst (Ume_low, Some (?kpi ! 0))) \<and>
            fval_ge (last_30_days_booking_ratio e) (Fin (1 / 2))"
    by blast
  then have b: "fval_ge (last_30_days_booking_ratio (?kpi ! 0)) (Fin (1 / 2))"
    by auto
  from f[OF one, THEN conjunct2, THEN conjunct2] cats
  have c: "map fst (best_dates02 (sort_values_stable RevPAR) False (1 / 2) ?cats ?kpi)
             = [Ume_low, Take_mid, Matsu_high]"
    by blast
  show ?thesis using s a mem b cats c by (intro conjI)
qed

section \<open>Division by zero\<close>

text \<open>
  Claim C9. \<open>ratio\<close> is the expression \<^verbatim>\<open>(a / b).fillna(0)\<close> of every ratio column. It never yields
  NaN, and it yields 0 where the quotient is NaN, which is \<open>0 / 0\<close>. (A quotient \<open>a / 0\<close> with
  \<open>a\<close> not 0 is an infinity, which \<^verbatim>\<open>fillna\<close> leaves; the third conjunct records it. No row of the
  frames has such a quotient:) every row of the aggregate has \<open>max_stock\<close> at least 30, and a
  row with \<open>total_sold = 0\<close> has \<open>total_revenue = 0\<close> and \<open>sold_last_30 = 0\<close>, so its ratios over
  \<open>total_sold\<close> would be 0 if the row were kept. In the frames \<^verbatim>\<open>daily_kpi\<close> of both scripts, after
  the filters, no denominator is 0 and every ratio (RevPAR, ADR, booking_rate_at_120_days,
  last_30_days_booking_ratio) is the finite quotient.
\<close>

theorem ratio_defaulting:
  "(\<forall>a b. ratio a b \<noteq> NaN) \<and>
   (\<forall>a b. pd_div a b = NaN \<longrightarrow> ratio a b = Fin 0) \<and>
   (\<forall>a. ratio a 0 = (if a = 0 then Fin 0 else if 0 < a then PInf else NInf)) \<and>
   (\<forall>a \<in> set (daily_kpi_agg (sales df)).
      30 \<le> agg_row.max_stock a \<and>
      (total_sold a = 0 \<longrightarrow>
         ratio (total_revenue a) (of_int (total_sold a)) = Fin 0 \<and>
         ratio (of_int (merge_left_fillna (sold_last_30_agg (sales df)) (stay_of a)))
               (of_int (total_sold a)) = Fin 0)) \<and>
   (\<forall>r \<in> set (daily_kpi01 (sales df)).
      agg_row.max_stock r \<noteq> 0 \<and> total_sold r \<noteq> 0 \<and>
      RevPAR r = Fin (total_revenue r / of_int (agg_row.max_stock r)) \<and>
      booking_rate_at_120_days r = Fin (of_int (sold_before_120 r) / of_int (agg_row.max_stock r)) \<and>
      last_30_days_booking_ratio r = Fin (of_int (sold_last_30 r) / of_int (total_sold r))) \<and>
   (\<forall>r \<in> set (snd (snd (daily_kpi02 num_tiers (sales df)))).
      agg_row.max_stock r \<noteq> 0 \<and> total_sold r \<noteq> 0 \<and>
      RevPAR r = Fin (total_revenue r / of_int (agg_row.max_stock r)) \<and>
      ADR r = Fin (total_revenue r / of_int (total_sold r)) \<and>
      last_30_days_booking_ratio r = Fin (of_int (sold_last_30 r) / of_int (total_sold r)))"
proof (intro conjI; (intro allI impI ballI)?)
  show "ratio a b \<noteq> NaN" for a b by (rule ratio_not_NaN)
  show "ratio a b = Fin 0" if "pd_div a b = NaN" for a b
    using that by (simp add: pd_div_NaN ratio_zero_zero)
  show "ratio a 0 = (if a = 0 then Fin 0 else if 0 < a then PInf else NInf)" for a
    by (rule ratio_zero_denominator)
next
  fix a assume a: "a \<in> set (daily_kpi_agg (sales df))"
  show "30 \<le> agg_row.max_stock a \<and>
      (total_sold a = 0 \<longrightarrow>
         ratio (total_revenue a) (of_int (total_sold a)) = Fin 0 \<and>
         ratio (of_int (merge_left_fillna (sold_last_30_agg (sales df)) (stay_of a)))
               (of_int (total_sold a)) = Fin 0)"
    using daily_kpi_agg_max_stock(2)[OF a] unsold_group[OF a]
    by (simp add: ratio_zero_zero)
next
  fix r assume r: "r \<in> set (daily_kpi01 (sales df))"
  note f = kpi_row_facts[OF daily_kpi01_row(1)[OF r]]
  from f(1) f(4) have nz: "agg_row.max_stock r \<noteq> 0" "total_sold r \<noteq> 0" by simp_all
  then show "agg_row.max_stock r \<noteq> 0 \<and> total_sold r \<noteq> 0 \<and>
      RevPAR r = Fin (total_revenue r / of_int (agg_row.max_stock r)) \<and>
      booking_rate_at_120_days r = Fin (of_int (sold_before_120 r) / of_int (agg_row.max_stock r)) \<and>
      last_30_days_booking_ratio r = Fin (of_int (sold_last_30 r) / of_int (total_sold r))"
    by (simp add: daily_kpi01_row(2)[OF r] daily_kpi01_row(4)[OF r] daily_kpi01_row(6)[OF r] ratio_Fin)
next
  fix r assume r: "r \<in> set (snd (snd (daily_kpi02 num_tiers (sales df))))"
  note f = kpi_row_facts[OF daily_kpi02_row(1)[OF r]]
  from f(1) f(4) have nz: "agg_row.max_stock r \<noteq> 0" "total_sold r \<noteq> 0" by simp_all
  then show "agg_row.max_stock r \<noteq> 0 \<and> total_sold r \<noteq> 0 \<and>
      RevPAR r = Fin (total_revenue r / of_int (agg_row.max_stock r)) \<and>
      ADR r = Fin (total_revenue r / of_int (total_sold r)) \<and>
      last_30_days_booking_ratio r = Fin (of_int (sold_last_30 r) / of_int (total_sold r))"
    by (simp add: daily_kpi02_row(2)[OF r] daily_kpi02_row(4)[OF r] daily_kpi02_row(5)[OF r] ratio_Fin)
qed

theorem ratio_defaulting_witness:
  "pd_div 0 0 = NaN \<and> ratio 0 0 = Fin 0 \<and>
   daily_kpi_agg (sales idle_df) ! 0 \<in> set (daily_kpi_agg (sales idle_df)) \<and>
   total_sold (daily_kpi_agg (sales idle_df) ! 0) = 0 \<and>
   ratio (total_revenue (daily_kpi_agg (sales idle_df) ! 0))
         (of_int (total_sold (daily_kpi_agg (sales idle_df) ! 0))) = Fin 0 \<and>
   daily_kpi01 (sales pace_df) ! 0 \<in> set (daily_kpi01 (sales pace_df)) \<and>
   RevPAR (daily_kpi01 (sales pace_df) ! 0) = Fin 50 \<and>
   snd (snd (daily_kpi02 3 (sales pace_df))) ! 0 \<in> set (snd (snd (daily_kpi02 3 (sales pace_df)))) \<and>
   ADR (snd (snd (daily_kpi02 3 (sales pace_df))) ! 0) = Fin 100"
proof -
  note m2 = ratio_defaulting[of idle_df 3, THEN conjunct2, THEN conjunct1, rule_format]
  note m4 = ratio_defaulting[of idle_df 3, THEN conjunct2, THEN conjunct2, THEN conjunct2, THEN conjunct1, rule_format]
  note m5 = ratio_defaulting[of pace_df 3, THEN conjunct2, THEN conjunct2, THEN conjunct2, THEN conjunct2, THEN conjunct1, rule_format]
  note m6 = ratio_defaulting[of pace_df 3, THEN conjunct2, THEN conjunct2, THEN conjunct2, THEN conjunct2, THEN conjunct2, rule_format]
  let ?a = "daily_kpi_agg (sales idle_df) ! 0"
  let ?r = "daily_kpi01 (sales pace_df) ! 0"
  let ?s = "snd (snd (daily_kpi02 3 (sales pace_df))) ! 0"
  have nan: "pd_div 0 0 = NaN" by (simp add: pd_div_def)
  have z: "ratio 0 0 = Fin 0" by (rule m2[OF nan])
  have mem: "?a \<in> set (daily_kpi_agg (sales idle_df))" "?r \<in> set (daily_kpi01 (sales pace_df))"
    "?s \<in> set (snd (snd (daily_kpi02 3 (sales pace_df))))"
    by code_simp+
  have unsold: "total_sold ?a = 0" by code_simp
  have a: "ratio (total_revenue ?a) (of_int (total_sold ?a)) = Fin 0"
    using m4[OF mem(1)] unsold by blast
  have ev: "total_revenue ?r = 2000" "agg_row.max_stock ?r = 40" "total_revenue ?s = 2000" "total_sold ?s = 20"
    by code_simp+
  have "RevPAR ?r = Fin (total_revenue ?r / of_int (agg_row.max_stock ?r))"
    using m5[OF mem(2)] by blast
  then have b: "RevPAR ?r = Fin 50" by (simp add: ev)
  have "ADR ?s = Fin (total_revenue ?s / of_int (total_sold ?s))"
    using m6[OF mem(3)] by blast
  then have c: "ADR ?s = Fin 100" by (simp add: ev)
  show ?thesis using nan z mem unsold a b c by (intro conjI)
qed

section \<open>The late-booking ratio lies between 0 and 1\<close>

text \<open>
  Claim C10. For every row of \<^verbatim>\<open>daily_kpi\<close> of either script (the rows that passed
  \<open>total_sold > 0\<close>): \<open>0 \<le> sold_last_30 \<le> total_sold\<close>, and \<open>last_30_days_booking_ratio\<close> is a
  finite number between 0 and 1.
\<close>

theorem late_ratio_in_unit_interval:
  "(\<forall>r \<in> set (daily_kpi01 (sales df)).
      0 \<le> sold_last_30 r \<and> sold_last_30 r \<le> total_sold r \<and> 0 < total_sold r \<and>
      (\<exists>q. last_30_days_booking_ratio r = Fin q \<and> 0 \<le> q \<and> q \<le> 1)) \<and>
   (\<forall>r \<in> set (snd (snd (daily_kpi02 num_tiers (sales df)))).
      0 \<le> sold_last_30 r \<and> sold_last_30 r \<le> total_sold r \<and> 0 < total_sold r \<and>
      (\<exists>q. last_30_days_booking_ratio r = Fin q \<and> 0 \<le> q \<and> q \<le> 1))"
proof -
  have gen: "0 \<le> sold_last_30 r \<and> sold_last_30 r \<le> total_sold r \<and> 0 < total_sold r \<and>
      (\<exists>q. last_30_days_booking_ratio r = Fin q \<and> 0 \<le> q \<and> q \<le> 1)"
    if t: "agg_row.truncate r \<in> set (daily_kpi_sold (sales df))"
      and l: "sold_last_30 r = merge_left_fillna (sold_last_30_agg (sales df)) (stay_of r)"
      and q: "last_30_days_booking_ratio r = ratio (of_int (sold_last_30 r)) (of_int (total_sold r))"
    for r :: "'a kpi_row_scheme"
  proof -
    let ?g = "group_rows stay_of (stay_of r) (sales df)"
    note h = late_ratio_generic[OF t l q]
    have nn: "0 \<le> sold e" if "e \<in> set ?g" for e
      using that by (auto simp: group_rows_def intro: sold_nonneg)
    from h have late: "sold_last_30 r = sum_list (map sold (filter (\<lambda>e. date r - Timedelta_days 30 \<le> created_at e) ?g))"
      and tot: "total_sold r = sum_list (map sold ?g)" and pos: "0 < total_sold r"
      and rat: "last_30_days_booking_ratio r = Fin (of_int (sold_last_30 r) / of_int (total_sold r))"
      by blast+
    have lo: "0 \<le> sold_last_30 r" unfolding late by (rule sum_list_filter_le(1)) (rule nn)
    have hi: "sold_last_30 r \<le> total_sold r" unfolding late tot by (rule sum_list_filter_le(2)) (rule nn)
    have "(0::rat) \<le> of_int (sold_last_30 r) / of_int (total_sold r)"
      using lo pos by simp
    moreover have "of_int (sold_last_30 r) / of_int (total_sold r) \<le> (1::rat)"
      using hi pos by simp
    ultimately show ?thesis using lo hi pos rat by blast
  qed
  show ?thesis
  proof (intro conjI; rule ballI)
    fix r assume r: "r \<in> set (daily_kpi01 (sales df))"
    show "0 \<le> sold_last_30 r \<and> sold_last_30 r \<le> total_sold r \<and> 0 < total_sold r \<and>
      (\<exists>q. last_30_days_booking_ratio r = Fin q \<and> 0 \<le> q \<and> q \<le> 1)"
      by (rule gen[OF daily_kpi01_row(1)[OF r] daily_kpi01_row(3)[OF r] daily_kpi01_row(4)[OF r]])
  next
    fix r assume r: "r \<in> set (snd (snd (daily_kpi02 num_tiers (sales df))))"
    show "0 \<le> sold_last_30 r \<and> sold_last_30 r \<le> total_sold r \<and> 0 < total_sold r \<and>
      (\<exists>q. last_30_days_booking_ratio r = Fin q \<and> 0 \<le> q \<and> q \<le> 1)"
      by (rule gen[OF daily_kpi02_row(1)[OF r] daily_kpi02_row(3)[OF r] daily_kpi02_row(4)[OF r]])
  qed
qed

theorem late_ratio_in_unit_interval_witness:
  "daily_kpi01 (sales pace_df) ! 0 \<in> set (daily_kpi01 (sales pace_df)) \<and>
   sold_last_30 (daily_kpi01 (sales pace_df) ! 0) \<le> total_sold (daily_kpi01 (sales pace_df) ! 0) \<and>
   (\<exists>q. last_30_days_booking_ratio (daily_kpi01 (sales pace_df) ! 0) = Fin q \<and> 0 \<le> q \<and> q \<le> 1) \<and>
   snd (snd (daily_kpi02 3 (sales pace_df))) ! 1 \<in> set (snd (snd (daily_kpi02 3 (sales pace_df)))) \<and>
   (\<exists>q. last_30_days_booking_ratio (snd (snd (daily_kpi02 3 (sales pace_df))) ! 1) = Fin q \<and> 0 \<le> q \<and> q \<le> 1)"
proof -
  note m1 = late_ratio_in_unit_interval[of pace_df 3, THEN conjunct1, rule_format]
  note m2 = late_ratio_in_unit_interval[of pace_df 3, THEN conjunct2, rule_format]
  have mem: "daily_kpi01 (sales pace_df) ! 0 \<in> set (daily_kpi01 (sales pace_df))"
    "snd (snd (daily_kpi02 3 (sales pace_df))) ! 1 \<in> set (snd (snd (daily_kpi02 3 (sales pace_df))))"
    by code_simp+
  show ?thesis using m1[OF mem(1)] m2[OF mem(2)] mem by blast
qed

end
